theory Spec2Isabelle
  imports Main
begin

section \<open>JavaScript values\<close>

text \<open>
  The row store is written in TypeScript; its rows are dynamic objects whose fields hold
  strings, numbers, booleans, Dates and arrays. A Date is either the module's shared
  \<open>noDate\<close> object, which \<open>stringer\<close> recognises by reference, or another Date with a
  time value in milliseconds (\<open>None\<close> is an invalid Date, whose time value is NaN).
  Numbers are the integer-valued ones (row positions, enum tags, counters); \<open>JObj s\<close> is
  any other object, carried with the text its \<open>toString()\<close> gives.
\<close>

datatype jsdate = NoDate | DateObj "int option"

datatype jsval =
    JUndefined
  | JNull
  | JBool bool
  | JNum int
  | JStr string
  | JDate jsdate
  | JArr "jsval list"
  | JObj string

datatype mismatch =
    RowNotFound
  | UpdatedDiffers jsval jsval
  | KeyDiffers string jsval jsval

text \<open>
  Every \<open>throw new SheetError(...)\<close> of the source is one constructor, named after the
  place that throws; \<open>Conflict\<close> carries the list that \<open>checkOutdated\<close> joins into its
  message. \<open>BackendError\<close> is whatever a call of the sheets SDK throws, \<open>TypeError\<close> and
  \<open>RangeError\<close> are the runtime's own.
\<close>

datatype error =
    SchemaMismatch string string
  | MissingKey
  | InvalidState
  | Conflict "mismatch list"
  | PersistFailure
  | BackendError string
  | TypeError
  | RangeError

text \<open>
  Library functions that the sources call and that are not part of them: \<open>boolDefault\<close>
  of the SDK runtime (called with the default \<open>false\<close>), and the built-in \<open>parseFloat\<close>,
  the conversion of text to a number (\<open>None\<close> is NaN), Date parsing,
  \<open>Date.prototype.toString\<close> and \<open>Date.prototype.toISOString\<close>.
\<close>

record env =
  boolDefault :: "jsval \<Rightarrow> bool"
  parseFloat :: "string \<Rightarrow> jsval"
  stringToNumber :: "string \<Rightarrow> int option"
  dateParse :: "string \<Rightarrow> int option"
  dateToString :: "jsdate \<Rightarrow> string"
  toISOString :: "int \<Rightarrow> string"

definition noDate_time :: int where
  "noDate_time = - 8640000000000000"

fun getTime :: "jsdate \<Rightarrow> int option" where
  "getTime NoDate = Some noDate_time"
| "getTime (DateObj t) = t"

fun typeof :: "jsval \<Rightarrow> string" where
  "typeof JUndefined = ''undefined''"
| "typeof JNull = ''object''"
| "typeof (JBool b) = ''boolean''"
| "typeof (JNum n) = ''number''"
| "typeof (JStr s) = ''string''"
| "typeof (JDate d) = ''object''"
| "typeof (JArr xs) = ''object''"
| "typeof (JObj s) = ''object''"

fun instanceof_Date :: "jsval \<Rightarrow> bool" where
  "instanceof_Date (JDate d) = True"
| "instanceof_Date v = False"

fun isArray :: "jsval \<Rightarrow> bool" where
  "isArray (JArr xs) = True"
| "isArray v = False"

text \<open>Truthiness, as \<open>if (value)\<close> and \<open>!value\<close> test it.\<close>

fun truthy :: "jsval \<Rightarrow> bool" where
  "truthy JUndefined = False"
| "truthy JNull = False"
| "truthy (JBool b) = b"
| "truthy (JNum n) = (n \<noteq> 0)"
| "truthy (JStr s) = (s \<noteq> [])"
| "truthy (JDate d) = True"
| "truthy (JArr xs) = True"
| "truthy (JObj s) = True"

subsection \<open>Numbers as text\<close>

definition digit_char :: "nat \<Rightarrow> char" where
  "digit_char d = ''0123456789'' ! d"

function nat_to_string :: "nat \<Rightarrow> string" where
  "nat_to_string n =
     (if n < 10 then [digit_char n]
      else nat_to_string (n div 10) @ [digit_char (n mod 10)])"
  by pat_completeness auto
termination
  by (relation "measure (\<lambda>n. n)") auto

declare nat_to_string.simps [simp del]

definition int_to_string :: "int \<Rightarrow> string" where
  "int_to_string n =
     (if n < 0 then CHR ''-'' # nat_to_string (nat (- n)) else nat_to_string (nat n))"

definition is_digit :: "char \<Rightarrow> bool" where
  "is_digit c = (c \<in> set ''0123456789'')"

text \<open>The pattern \<open>/^([+-]?[1-9]\d*|0)$/\<close> of \<open>typeCast\<close>.\<close>

definition nonzero_led :: "string \<Rightarrow> bool" where
  "nonzero_led s =
     (case s of [] \<Rightarrow> False
      | d # ds \<Rightarrow> d \<in> set ''123456789'' \<and> list_all is_digit ds)"

definition isInt :: "string \<Rightarrow> bool" where
  "isInt s =
     (s = ''0'' \<or>
      (case s of [] \<Rightarrow> False
       | c # cs \<Rightarrow> if c = CHR ''+'' \<or> c = CHR ''-'' then nonzero_led cs else nonzero_led s))"

definition digit_val :: "char \<Rightarrow> int" where
  "digit_val c = int (of_char c) - 48"

definition digits_val :: "string \<Rightarrow> int" where
  "digits_val s = foldl (\<lambda>a c. 10 * a + digit_val c) 0 s"

text \<open>
  \<open>parseInt(value, 10)\<close>, which \<open>typeCast\<close> calls only on text that matches \<open>isInt\<close>:
  an optional sign and decimal digits, all of the text.
\<close>

definition parseInt10 :: "string \<Rightarrow> int" where
  "parseInt10 s =
     (case s of [] \<Rightarrow> 0
      | c # cs \<Rightarrow>
          if c = CHR ''-'' then - digits_val cs
          else if c = CHR ''+'' then digits_val cs
          else digits_val s)"

subsection \<open>Strings: join, split, startsWith\<close>

fun join :: "string \<Rightarrow> string list \<Rightarrow> string" where
  "join sep [] = []"
| "join sep [x] = x"
| "join sep (x # y # ys) = x @ sep @ join sep (y # ys)"

text \<open>\<open>s.split(',')\<close>: the empty text splits into one empty piece.\<close>

fun split_on :: "char \<Rightarrow> string \<Rightarrow> string list" where
  "split_on c [] = [[]]"
| "split_on c (x # xs) =
     (if x = c then [] # split_on c xs
      else (case split_on c xs of [] \<Rightarrow> [[x]] | y # ys \<Rightarrow> (x # y) # ys))"

definition startsWith :: "string \<Rightarrow> string \<Rightarrow> bool" where
  "startsWith s p = (take (length p) s = p)"

text \<open>
  \<open>String(value)\<close>. On every value but \<open>undefined\<close> and \<open>null\<close> it is what
  \<open>value.toString()\<close> returns, and the sources call \<open>toString()\<close> on no other value.
  A number is written in decimal digits (as the runtime does below \<open>10^21\<close>); an
  array joins its elements with commas, an absent element giving the empty text.
\<close>

fun to_String :: "env \<Rightarrow> jsval \<Rightarrow> string" where
  "to_String e JUndefined = ''undefined''"
| "to_String e JNull = ''null''"
| "to_String e (JBool b) = (if b then ''true'' else ''false'')"
| "to_String e (JNum n) = int_to_string n"
| "to_String e (JStr s) = s"
| "to_String e (JDate d) = dateToString e d"
| "to_String e (JArr xs) =
     join '','' (map (\<lambda>v. if v = JUndefined \<or> v = JNull then [] else to_String e v) xs)"
| "to_String e (JObj s) = s"

text \<open>
  \<open>new Date(value)\<close>: a Date is copied by its time value, text is parsed, anything else
  is converted to a number and clipped to the range of valid time values.
\<close>

definition timeClip :: "int \<Rightarrow> int option" where
  "timeClip n = (if \<bar>n\<bar> \<le> 8640000000000000 then Some n else None)"

fun newDate :: "env \<Rightarrow> jsval \<Rightarrow> jsdate" where
  "newDate e (JDate d) = DateObj (getTime d)"
| "newDate e (JNum n) = DateObj (timeClip n)"
| "newDate e (JBool b) = DateObj (Some (if b then 1 else 0))"
| "newDate e JNull = DateObj (Some 0)"
| "newDate e JUndefined = DateObj None"
| "newDate e v = DateObj (dateParse e (to_String e v))"

section \<open>RowModel\<close>

text \<open>Signifies an empty cell: the one-character text \<open>'\0'\<close>.\<close>

definition nilCell :: string where
  "nilCell = [CHR 0x00]"

text \<open>
  \<open>stringer\<close>: the cell text of a value. \<open>toISOString\<close> throws a RangeError on an
  invalid Date.
\<close>

fun stringer :: "env \<Rightarrow> jsval \<Rightarrow> error + string" where
  "stringer e JUndefined = Inr nilCell"
| "stringer e JNull = Inr nilCell"
| "stringer e (JDate d) =
     (if d = NoDate then Inr nilCell
      else (case getTime d of None \<Rightarrow> Inl RangeError | Some t \<Rightarrow> Inr (toISOString e t)))"
| "stringer e v = Inr (to_String e v)"

text \<open>
  An object is the list of its own properties in insertion order, without repeated
  keys. Reading an absent property gives \<open>undefined\<close>; writing keeps the place of a
  present key and appends a new one. A row is modelled by its fields: what it inherits
  from its class (the methods, the accessor \<open>$action\<close>) and from every object is not a
  field, and \<open>this[key]\<close> and \<open>key in this\<close> are taken over the own properties. Keys
  are field names throughout; a key that names an inherited member is outside this
  model of a row.
\<close>

type_synonym obj = "(string \<times> jsval) list"

definition get :: "(string \<times> 'a) list \<Rightarrow> string \<Rightarrow> 'a option" where
  "get this key = map_of this key"

fun put :: "(string \<times> 'a) list \<Rightarrow> string \<Rightarrow> 'a \<Rightarrow> (string \<times> 'a) list" where
  "put [] key v = [(key, v)]"
| "put ((k, w) # this) key v =
     (if k = key then (k, v) # this else (k, w) # put this key v)"

definition lookup :: "obj \<Rightarrow> string \<Rightarrow> jsval" where
  "lookup this key = (case get this key of None \<Rightarrow> JUndefined | Some v \<Rightarrow> v)"

definition has_key :: "obj \<Rightarrow> string \<Rightarrow> bool" where
  "has_key this key = (key \<in> set (map fst this))"

definition keys :: "obj \<Rightarrow> string list" where
  "keys this = map fst this"

text \<open>\<open>header()\<close>: the keys without the first (the row position) and without \<open>$\<close> names.\<close>

definition header :: "obj \<Rightarrow> string list" where
  "header this = filter (\<lambda>v. \<not> startsWith v ''$'') (drop 1 (keys this))"

definition displayHeader :: "obj \<Rightarrow> string list" where
  "displayHeader this = filter (\<lambda>v. \<not> startsWith v ''_'') (header this)"

text \<open>\<open>this.toString()\<close> of a row, which the class does not override.\<close>

definition row_toString :: "obj \<Rightarrow> string" where
  "row_toString this = ''[object Object]''"

definition typeCast :: "env \<Rightarrow> obj \<Rightarrow> string \<Rightarrow> jsval \<Rightarrow> jsval" where
  "typeCast e this key value0 =
     (let val = (if value0 = JUndefined \<or> value0 = JNull then JStr [] else value0);
          cur = lookup this key
      in if typeof cur = ''string'' then JStr (to_String e val)
         else if typeof cur = ''number'' then
           (if val = JStr [] then JNum 0
            else if isInt (to_String e val) then JNum (parseInt10 (to_String e val))
            else parseFloat e (to_String e val))
         else if typeof cur = ''boolean'' then JBool (boolDefault e val)
         else if instanceof_Date cur then
           (if truthy val then JDate (newDate e val) else JDate NoDate)
         else if isArray cur then
           (if \<not> truthy val then JArr []
            else JArr (map JStr (split_on CHR '','' (to_String e val))))
         else JStr (row_toString this))"

text \<open>
  The argument of \<open>assign\<close>: an array of cells, a keyed object, or a falsy value.
\<close>

datatype source = VArr "jsval list" | VObj obj | VFalsy

text \<open>\<open>keys[index]\<close> used as a property name: past the end it is \<open>undefined\<close>.\<close>

definition key_at :: "string list \<Rightarrow> nat \<Rightarrow> string" where
  "key_at ks i = (if i < length ks then ks ! i else ''undefined'')"

fun assign_pos :: "env \<Rightarrow> string list \<Rightarrow> obj \<Rightarrow> nat \<Rightarrow> jsval list \<Rightarrow> obj" where
  "assign_pos e ks this i [] = this"
| "assign_pos e ks this i (v # vs) =
     (if v \<noteq> JUndefined \<and> v \<noteq> JNull
      then assign_pos e ks (put this (key_at ks i) (typeCast e this (key_at ks i) v)) (Suc i) vs
      else assign_pos e ks this (Suc i) vs)"

fun assign_named :: "env \<Rightarrow> obj \<Rightarrow> (string \<times> jsval) list \<Rightarrow> obj" where
  "assign_named e this [] = this"
| "assign_named e this ((k, v) # kvs) =
     (if has_key this k then assign_named e (put this k (typeCast e this k v)) kvs
      else assign_named e this kvs)"

fun assign :: "env \<Rightarrow> obj \<Rightarrow> source \<Rightarrow> obj" where
  "assign e this VFalsy = this"
| "assign e this (VArr vs) = assign_pos e (header this) this 0 vs"
| "assign e this (VObj kvs) = assign_named e this kvs"

definition toObject :: "obj \<Rightarrow> obj" where
  "toObject this = this"

definition fromObject :: "env \<Rightarrow> obj \<Rightarrow> obj \<Rightarrow> obj" where
  "fromObject e this ob = assign e this (VObj ob)"

text \<open>
  \<open>prepare()\<close>, given the identifier \<open>uuidv4()\<close> would return and the current time.
\<close>

definition prepare :: "string \<Rightarrow> int \<Rightarrow> obj \<Rightarrow> obj" where
  "prepare uuid now this =
     (let this1 = (if \<not> truthy (lookup this ''_id'') then put this ''_id'' (JStr uuid) else this)
      in put this1 ''_updated'' (JDate (DateObj (Some now))))"

section \<open>WhollySheet\<close>

text \<open>
  The sheet reads a row's position, timestamp and identity as the properties \<open>row\<close>,
  \<open>updated\<close> and its key column (\<open>id\<close> unless another is given), and it writes the
  position to \<open>row\<close>. The RowModel above keeps its own position, identifier and timestamp
  under \<open>_row\<close>, \<open>_id\<close> and \<open>_updated\<close>, which is where \<open>prepare\<close> stamps them. Both
  are modelled with the names they use.
\<close>

subsection \<open>Numbers and comparison\<close>

text \<open>
  Conversion to a number, as \<open><\<close>, \<open>>\<close> and \<open>-\<close> apply it to an operand; \<open>None\<close>
  is NaN. A Date gives its time value, an array or another object goes through its text.
\<close>

fun to_number :: "env \<Rightarrow> jsval \<Rightarrow> int option" where
  "to_number e JUndefined = None"
| "to_number e JNull = Some 0"
| "to_number e (JBool b) = Some (if b then 1 else 0)"
| "to_number e (JNum n) = Some n"
| "to_number e (JStr s) = stringToNumber e s"
| "to_number e (JDate d) = getTime d"
| "to_number e v = stringToNumber e (to_String e v)"

definition js_lt :: "env \<Rightarrow> jsval \<Rightarrow> int \<Rightarrow> bool" where
  "js_lt e v n = (case to_number e v of None \<Rightarrow> False | Some x \<Rightarrow> x < n)"

definition js_gt :: "env \<Rightarrow> jsval \<Rightarrow> int \<Rightarrow> bool" where
  "js_gt e v n = (case to_number e v of None \<Rightarrow> False | Some x \<Rightarrow> n < x)"

text \<open>
  \<open>a === b\<close> for two operands that are not one and the same object, as when one of
  them is a field of a freshly typed row. Primitives compare by value. Two Dates, arrays
  or other objects are then different objects, whatever they hold; the one object the
  rows share is \<open>noDate\<close>, which is identical to itself.
\<close>

fun strict_eq_unshared :: "jsval \<Rightarrow> jsval \<Rightarrow> bool" where
  "strict_eq_unshared JUndefined JUndefined = True"
| "strict_eq_unshared JNull JNull = True"
| "strict_eq_unshared (JBool a) (JBool b) = (a = b)"
| "strict_eq_unshared (JNum a) (JNum b) = (a = b)"
| "strict_eq_unshared (JStr a) (JStr b) = (a = b)"
| "strict_eq_unshared (JDate a) (JDate b) = (a = NoDate \<and> b = NoDate)"
| "strict_eq_unshared a b = False"

text \<open>
  \<open>compareDates(a, b) = a.getTime() - b.getTime()\<close>: a TypeError when an operand has
  no \<open>getTime\<close>, NaN when a Date is invalid.
\<close>

fun compareDates :: "jsval \<Rightarrow> jsval \<Rightarrow> error + int option" where
  "compareDates (JDate a) (JDate b) =
     Inr (case getTime a of None \<Rightarrow> None
          | Some x \<Rightarrow> (case getTime b of None \<Rightarrow> None | Some y \<Rightarrow> Some (x - y)))"
| "compareDates a b = Inl TypeError"

subsection \<open>The sheet, its backend and its state\<close>

record tabTable =
  table_header :: "string list"
  table_rows :: "jsval list list"

record createResult =
  res_row :: int
  res_values :: "jsval list list option"

text \<open>
  The sheets SDK is the remote backend: each call answers with a value or throws
  (\<open>Inl\<close>). A set of cell rows that may be absent is an option.
\<close>

record sheetSDK =
  sheets_rowGet :: "string \<Rightarrow> jsval \<Rightarrow> error + jsval list list option"
  sheets_rowCreate :: "string \<Rightarrow> int \<Rightarrow> string list \<Rightarrow> error + createResult"
  sheets_rowUpdate :: "string \<Rightarrow> jsval \<Rightarrow> string list \<Rightarrow> error + jsval list list option"
  sheets_rowDelete :: "string \<Rightarrow> jsval \<Rightarrow> error + jsval list list"
  sheets_tabValues :: "string \<Rightarrow> error + jsval list list"

text \<open>The requests an operation sends to the backend, in order.\<close>

datatype request =
    ReqRowGet string jsval
  | ReqRowCreate string int "string list"
  | ReqRowUpdate string jsval "string list"
  | ReqRowDelete string jsval
  | ReqTabValues string

text \<open>
  The read-only members of a WhollySheet; \<open>typeRows\<close> is the abstract method a
  subclass supplies.
\<close>

record sheet =
  sheets :: sheetSDK
  name :: string
  table :: tabTable
  keyColumn :: string
  typeRows :: "jsval list list \<Rightarrow> obj list"

text \<open>
  Row objects are shared and mutated in place: a row of \<open>rows\<close> is also the row the
  index holds, and may be the very object a caller passes to \<open>update\<close>. So rows live in
  a store; an address is a position in \<open>heap\<close>, and \<open>rows\<close> and \<open>index\<close> hold addresses.
  A new object is stored at the end. The rows \<open>typeRows\<close> returns are new objects.
  A typed row that no member of the sheet comes to hold (the row \<open>rowGet\<close> types for
  \<open>checkOutdated\<close>, the row \<open>create\<close> types before it refreshes) is used as a value
  and not stored.
\<close>

record state =
  heap :: "obj list"
  rows :: "nat list"
  index :: "(string \<times> nat) list"

definition alloc :: "obj list \<Rightarrow> obj list \<Rightarrow> obj list \<times> nat list" where
  "alloc h objs = (h @ objs, [length h ..< length h + length objs])"

definition typeRow :: "sheet \<Rightarrow> jsval list \<Rightarrow> obj option" where
  "typeRow ws r = (case typeRows ws [r] of [] \<Rightarrow> None | x # xs \<Rightarrow> Some x)"

definition checkHeader :: "sheet \<Rightarrow> state \<Rightarrow> error + bool" where
  "checkHeader ws st =
     (case rows st of [] \<Rightarrow> Inr True
      | a # as \<Rightarrow>
          (let rowHeader = join '','' (header (heap st ! a));
               tableHeader = join '','' (table_header (table ws))
           in if tableHeader \<noteq> rowHeader then Inl (SchemaMismatch rowHeader tableHeader)
              else Inr True))"

definition nextRow :: "state \<Rightarrow> int" where
  "nextRow st = int (length (rows st)) + 2"

text \<open>The property name under which \<open>createIndex\<close> files a row.\<close>

definition key_of :: "env \<Rightarrow> sheet \<Rightarrow> obj \<Rightarrow> string" where
  "key_of e ws r = to_String e (lookup r (keyColumn ws))"

text \<open>
  The loop of \<open>createIndex\<close>: starting from the empty object, each row in turn is
  stored under its property name \<open>f a\<close>, a later row replacing an earlier one.
\<close>

definition build_index :: "(nat \<Rightarrow> string) \<Rightarrow> nat list \<Rightarrow> (string \<times> nat) list" where
  "build_index f as = foldl (\<lambda>idx a. put idx (f a) a) [] as"

definition createIndex :: "env \<Rightarrow> sheet \<Rightarrow> state \<Rightarrow> state" where
  "createIndex e ws st =
     st\<lparr>index := build_index (\<lambda>a. key_of e ws (heap st ! a)) (rows st)\<rparr>"

fun stringer_all :: "env \<Rightarrow> jsval list \<Rightarrow> error + string list" where
  "stringer_all e [] = Inr []"
| "stringer_all e (v # vs) =
     (case stringer e v of Inl err \<Rightarrow> Inl err
      | Inr c \<Rightarrow> (case stringer_all e vs of Inl err \<Rightarrow> Inl err | Inr cs \<Rightarrow> Inr (c # cs)))"

definition values_of :: "env \<Rightarrow> sheet \<Rightarrow> obj \<Rightarrow> error + string list" where
  "values_of e ws model = stringer_all e (map (lookup model) (table_header (table ws)))"

definition construct :: "env \<Rightarrow> sheet \<Rightarrow> obj list \<Rightarrow> error + state" where
  "construct e ws h0 =
     (let (h, addrs) = alloc h0 (typeRows ws (table_rows (table ws)));
          st = \<lparr>heap = h, rows = addrs, index = []\<rparr>
      in case checkHeader ws st of Inl err \<Rightarrow> Inl err
         | Inr ok \<Rightarrow> Inr (createIndex e ws st))"

subsection \<open>refresh\<close>

fun set_positions :: "obj list \<Rightarrow> nat list \<Rightarrow> nat \<Rightarrow> obj list" where
  "set_positions h [] i = h"
| "set_positions h (a # as) i =
     set_positions (h[a := put (h ! a) ''row'' (JNum (int i + 2))]) as (Suc i)"

definition refresh :: "env \<Rightarrow> sheet \<Rightarrow> state \<Rightarrow> (error + nat list) \<times> state \<times> request list" where
  "refresh e ws st =
     (case sheets_tabValues (sheets ws) (name ws) of
        Inl err \<Rightarrow> (Inl err, st, [ReqTabValues (name ws)])
      | Inr vals \<Rightarrow>
          (let (h, addrs) = alloc (heap st) (typeRows ws (drop 1 vals));
               st1 = st\<lparr>heap := set_positions h addrs 0, rows := addrs\<rparr>
           in (Inr addrs, createIndex e ws st1, [ReqTabValues (name ws)])))"

subsection \<open>checkOutdated\<close>

definition rowGet :: "sheet \<Rightarrow> jsval \<Rightarrow> error + obj option" where
  "rowGet ws row =
     (case sheets_rowGet (sheets ws) (name ws) row of
        Inl err \<Rightarrow> Inl err
      | Inr None \<Rightarrow> Inr None
      | Inr (Some []) \<Rightarrow> Inr None
      | Inr (Some (r # rs)) \<Rightarrow> Inr (typeRow ws r))"

definition updated_mismatch :: "obj \<Rightarrow> obj \<Rightarrow> error + mismatch list" where
  "updated_mismatch fetched model =
     (if lookup fetched ''updated'' \<noteq> JUndefined then
        (case compareDates (lookup fetched ''updated'') (lookup model ''updated'') of
           Inl err \<Rightarrow> Inl err
         | Inr d \<Rightarrow>
             Inr (if d \<noteq> Some 0
                  then [UpdatedDiffers (lookup fetched ''updated'') (lookup model ''updated'')]
                  else []))
      else Inr [])"

definition key_mismatch :: "sheet \<Rightarrow> obj \<Rightarrow> obj \<Rightarrow> mismatch list" where
  "key_mismatch ws fetched model =
     (if \<not> strict_eq_unshared (lookup fetched (keyColumn ws)) (lookup model (keyColumn ws))
      then [KeyDiffers (keyColumn ws) (lookup fetched (keyColumn ws)) (lookup model (keyColumn ws))]
      else [])"

definition outdated_errors :: "sheet \<Rightarrow> obj option \<Rightarrow> obj \<Rightarrow> error + mismatch list" where
  "outdated_errors ws fetched model =
     (case fetched of None \<Rightarrow> Inr [RowNotFound]
      | Some f \<Rightarrow>
          (case updated_mismatch f model of Inl err \<Rightarrow> Inl err
           | Inr us \<Rightarrow> Inr (us @ key_mismatch ws f model)))"

definition checkOutdated :: "env \<Rightarrow> sheet \<Rightarrow> obj \<Rightarrow> (error + bool) \<times> request list" where
  "checkOutdated e ws model =
     (if js_lt e (lookup model ''row'') 1 then (Inr False, [])
      else
        (let log = [ReqRowGet (name ws) (lookup model ''row'')]
         in case rowGet ws (lookup model ''row'') of
              Inl err \<Rightarrow> (Inl err, log)
            | Inr fetched \<Rightarrow>
                (case outdated_errors ws fetched model of
                   Inl err \<Rightarrow> (Inl err, log)
                 | Inr errors \<Rightarrow>
                     if errors \<noteq> [] then (Inl (Conflict errors), log) else (Inr False, log))))"

subsection \<open>create, update, delete, find\<close>

definition checkId :: "sheet \<Rightarrow> obj \<Rightarrow> bool" where
  "checkId ws model = truthy (lookup model (keyColumn ws))"

definition create ::
  "env \<Rightarrow> sheet \<Rightarrow> string \<Rightarrow> int \<Rightarrow> state \<Rightarrow> nat \<Rightarrow> (error + nat option) \<times> state \<times> request list" where
  "create e ws uuid now st m =
     (if js_gt e (lookup (heap st ! m) ''row'') 0 then (Inl InvalidState, st, [])
      else
        (let st1 = st\<lparr>heap := (heap st)[m := prepare uuid now (heap st ! m)]\<rparr>;
             model = heap st1 ! m
         in if \<not> checkId ws model then (Inl MissingKey, st1, [])
            else
              (case values_of e ws model of
                 Inl err \<Rightarrow> (Inl err, st1, [])
               | Inr cells \<Rightarrow>
                   (let req = ReqRowCreate (name ws) (nextRow st1) cells
                    in case sheets_rowCreate (sheets ws) (name ws) (nextRow st1) cells of
                         Inl err \<Rightarrow> (Inl err, st1, [req])
                       | Inr result \<Rightarrow>
                           (case res_values result of
                              None \<Rightarrow> (Inl PersistFailure, st1, [req])
                            | Some [] \<Rightarrow> (Inl PersistFailure, st1, [req])
                            | Some (r # rs) \<Rightarrow>
                                if res_row result < 1 then (Inl PersistFailure, st1, [req])
                                else
                                  (case typeRow ws r of
                                     None \<Rightarrow> (Inl TypeError, st1, [req])
                                   | Some typed \<Rightarrow>
                                       (let newRow = put typed ''row'' (JNum (res_row result))
                                        in if res_row result = nextRow st1 then
                                             (let st2 = createIndex e ws
                                                    (st1\<lparr>heap := heap st1 @ [newRow],
                                                         rows := rows st1 @ [length (heap st1)]\<rparr>)
                                              in (Inr (get (index st2) (key_of e ws newRow)), st2, [req]))
                                           else
                                             (case refresh e ws st1 of
                                                (Inl err, st3, log) \<Rightarrow> (Inl err, st3, req # log)
                                              | (Inr rs, st3, log) \<Rightarrow>
                                                  (Inr (get (index st3) (key_of e ws newRow)),
                                                   st3, req # log)))))))))"

text \<open>\<open>this.rows[rowPos]\<close>: \<open>undefined\<close> unless the position is one of the array.\<close>

definition rows_at :: "nat list \<Rightarrow> int option \<Rightarrow> nat option" where
  "rows_at rs pos =
     (case pos of None \<Rightarrow> None
      | Some i \<Rightarrow> if 0 \<le> i \<and> i < int (length rs) then Some (rs ! nat i) else None)"

definition update ::
  "env \<Rightarrow> sheet \<Rightarrow> string \<Rightarrow> int \<Rightarrow> state \<Rightarrow> nat \<Rightarrow> (error + nat option) \<times> state \<times> request list" where
  "update e ws uuid now st m =
     (if \<not> checkId ws (heap st ! m) then (Inl MissingKey, st, [])
      else if \<not> truthy (lookup (heap st ! m) ''row'') then (Inl InvalidState, st, [])
      else
        (case checkOutdated e ws (heap st ! m) of
           (Inl err, log) \<Rightarrow> (Inl err, st, log)
         | (Inr ok, log) \<Rightarrow>
             (let rowPos = map_option (\<lambda>n. n - 2) (to_number e (lookup (heap st ! m) ''row''));
                  st1 = st\<lparr>heap := (heap st)[m := prepare uuid now (heap st ! m)]\<rparr>;
                  model = heap st1 ! m
              in case values_of e ws model of
                   Inl err \<Rightarrow> (Inl err, st1, log)
                 | Inr cells \<Rightarrow>
                     (let log1 = log @ [ReqRowUpdate (name ws) (lookup model ''row'') cells]
                      in case sheets_rowUpdate (sheets ws) (name ws) (lookup model ''row'') cells of
                           Inl err \<Rightarrow> (Inl err, st1, log1)
                         | Inr None \<Rightarrow>
                             (Inr (rows_at (rows st1) rowPos), createIndex e ws st1, log1)
                         | Inr (Some vals) \<Rightarrow>
                             (case rows_at (rows st1) rowPos of
                                None \<Rightarrow> (Inl TypeError, st1, log1)
                              | Some a \<Rightarrow>
                                  (let updateValues = (case vals of [] \<Rightarrow> VFalsy | v # vs \<Rightarrow> VArr v);
                                       st2 = st1\<lparr>heap := (heap st1)[a := assign e (heap st1 ! a) updateValues]\<rparr>
                                   in (Inr (Some a), createIndex e ws st2, log1)))))))"

definition delete ::
  "env \<Rightarrow> sheet \<Rightarrow> state \<Rightarrow> nat \<Rightarrow> (error + bool) \<times> state \<times> request list" where
  "delete e ws st m =
     (case checkOutdated e ws (heap st ! m) of
        (Inl err, log) \<Rightarrow> (Inl err, st, log)
      | (Inr ok, log) \<Rightarrow>
          (let log1 = log @ [ReqRowDelete (name ws) (lookup (heap st ! m) ''row'')]
           in case sheets_rowDelete (sheets ws) (name ws) (lookup (heap st ! m) ''row'') of
                Inl err \<Rightarrow> (Inl err, st, log1)
              | Inr vals \<Rightarrow>
                  (let (h, addrs) = alloc (heap st) (typeRows ws vals)
                   in (Inr True, createIndex e ws (st\<lparr>heap := h, rows := addrs\<rparr>), log1))))"

text \<open>
  \<open>find(value, columnName?)\<close>; an omitted \<open>columnName\<close> is \<open>None\<close>.

  The value looked for is given by itself (a primitive, or an object that no row holds),
  or it is the very value that the row at an address holds in one of its fields, handed
  back by the caller: for a Date, an array or another object, the same reference.
\<close>

datatype needle = Given jsval | Held nat string

definition needle_value :: "state \<Rightarrow> needle \<Rightarrow> jsval" where
  "needle_value st n = (case n of Given v \<Rightarrow> v | Held a k \<Rightarrow> lookup (heap st ! a) k)"

fun is_reference :: "jsval \<Rightarrow> bool" where
  "is_reference (JDate d) = True"
| "is_reference (JArr xs) = True"
| "is_reference (JObj s) = True"
| "is_reference v = False"

text \<open>
  \<open>r[key] === value\<close> for the row \<open>r\<close> at address \<open>b\<close>. An object held by a row is
  identical to itself and to no other object: apart from \<open>noDate\<close>, the fields of the
  rows hold objects of their own, since typing a cell makes a new one.
\<close>

definition field_is :: "state \<Rightarrow> nat \<Rightarrow> string \<Rightarrow> needle \<Rightarrow> bool" where
  "field_is st b key n =
     (case n of
        Given v \<Rightarrow> strict_eq_unshared (lookup (heap st ! b) key) v
      | Held a k \<Rightarrow>
          if is_reference (lookup (heap st ! a) k) \<and> lookup (heap st ! a) k \<noteq> JDate NoDate
          then b = a \<and> key = k
          else strict_eq_unshared (lookup (heap st ! b) key) (lookup (heap st ! a) k))"

text \<open>
  The index is a plain object (\<open>index: Record<string, T> = {}\<close>), so \<open>this.index[name]\<close>
  answers with a row for a name a row was stored under, and otherwise with what a plain
  object inherits: every object has the members listed here, each of them a function or
  an object.
\<close>

definition object_members :: "string list" where
  "object_members =
     [''constructor'', ''__defineGetter__'', ''__defineSetter__'', ''hasOwnProperty'',
      ''__lookupGetter__'', ''__lookupSetter__'', ''isPrototypeOf'', ''propertyIsEnumerable'',
      ''toString'', ''valueOf'', ''__proto__'', ''toLocaleString'']"

text \<open>
  What \<open>find\<close> returns when it returns something. \<open>Row a\<close> is the row at address
  \<open>a\<close>. \<open>Member k\<close> is the member \<open>k\<close> that the index inherits as a plain object.
  A row stored under the name \<open>__proto__\<close> is not filed as a property: the assignment
  makes it the prototype of the index, and the entry of that name stands for this link.
  A name the index does not have is then looked up in that row, and \<open>Through a k\<close> is
  what the row at \<open>a\<close> answers for \<open>k\<close> when that is truthy, and absent otherwise.
\<close>

datatype found = Row nat | Member string | Through nat string

definition index_at :: "(string \<times> nat) list \<Rightarrow> string \<Rightarrow> found option" where
  "index_at idx k =
     (case get idx k of
        Some a \<Rightarrow> Some (Row a)
      | None \<Rightarrow>
          (case get idx ''__proto__'' of
             Some a \<Rightarrow> Some (Through a k)
           | None \<Rightarrow> if k \<in> set object_members then Some (Member k) else None))"

text \<open>
  \<open>toAT\<close> passes a truthy value on and turns any other into \<open>undefined\<close>. A row and
  an inherited member are truthy.
\<close>

definition toAT :: "found option \<Rightarrow> found option" where
  "toAT v = (case v of None \<Rightarrow> None | Some x \<Rightarrow> Some x)"

definition find_row ::
  "env \<Rightarrow> sheet \<Rightarrow> state \<Rightarrow> needle \<Rightarrow> string option \<Rightarrow> found option" where
  "find_row e ws st n columnName =
     (if \<not> truthy (needle_value st n) then None
      else
        (let given = (case columnName of None \<Rightarrow> False | Some c \<Rightarrow> c \<noteq> []);
             key0 = (case columnName of None \<Rightarrow> keyColumn ws
                     | Some c \<Rightarrow> if c \<noteq> [] then c else keyColumn ws);
             key = (if typeof (needle_value st n) = ''number'' \<and> \<not> given then ''row'' else key0)
         in if columnName = Some (keyColumn ws)
            then toAT (index_at (index st) (to_String e (needle_value st n)))
            else toAT (map_option Row (List.find (\<lambda>b. field_is st b key n) (rows st)))))"

section \<open>Notions used to state the properties\<close>

subsection \<open>Round trip through a plain object\<close>

text \<open>
  What \<open>typeCast\<close> makes of a field's own value: a Date comes back as a new Date of the
  same time value, every other value as itself.
\<close>

fun recreate :: "jsval \<Rightarrow> jsval" where
  "recreate (JDate d) = JDate (DateObj (getTime d))"
| "recreate v = v"

fun comma_free_text :: "jsval \<Rightarrow> bool" where
  "comma_free_text (JStr s) = (CHR '','' \<notin> set s)"
| "comma_free_text v = False"

text \<open>
  The field values that survive the round trip: text, numbers, booleans, Dates, and
  arrays that are not empty and hold only text without commas.
\<close>

fun roundtrip_safe :: "jsval \<Rightarrow> bool" where
  "roundtrip_safe (JStr s) = True"
| "roundtrip_safe (JNum n) = True"
| "roundtrip_safe (JBool b) = True"
| "roundtrip_safe (JDate d) = True"
| "roundtrip_safe (JArr xs) = (xs \<noteq> [] \<and> list_all comma_free_text xs)"
| "roundtrip_safe v = False"

text \<open>Equality of field values, two Dates being equal when their time values are.\<close>

fun same_value :: "jsval \<Rightarrow> jsval \<Rightarrow> bool" where
  "same_value (JDate a) (JDate b) = (getTime a = getTime b)"
| "same_value a b = (a = b)"

definition same_record :: "obj \<Rightarrow> obj \<Rightarrow> bool" where
  "same_record a b = (map fst a = map fst b \<and> list_all2 same_value (map snd a) (map snd b))"

subsection \<open>Index and rows\<close>

text \<open>
  The rows are filed under pairwise different property names. For key values that are
  text, as an identifier is, these are the key values themselves.
\<close>

definition distinct_keys :: "env \<Rightarrow> sheet \<Rightarrow> state \<Rightarrow> bool" where
  "distinct_keys e ws st = distinct (map (\<lambda>a. key_of e ws (heap st ! a)) (rows st))"

text \<open>
  Every row is found in the index under its key, as that very object; and every entry
  of the index is a row of \<open>rows\<close>, filed under its own key.
\<close>

definition index_consistent :: "env \<Rightarrow> sheet \<Rightarrow> state \<Rightarrow> bool" where
  "index_consistent e ws st =
     (list_all (\<lambda>a. get (index st) (key_of e ws (heap st ! a)) = Some a) (rows st)
      \<and> list_all (\<lambda>(k, a). a \<in> set (rows st) \<and> key_of e ws (heap st ! a) = k) (index st))"

section \<open>Example data\<close>

text \<open>
  Stand-ins for the library functions, to evaluate the examples: \<open>boolDefault\<close> accepts
  \<open>true\<close>; the others answer with a fixed value, on which no example depends.
\<close>

definition stub_env :: env where
  "stub_env =
     \<lparr>boolDefault = (\<lambda>v. v = JBool True \<or> v = JStr ''true''),
      parseFloat = (\<lambda>s. JNum 0),
      stringToNumber = (\<lambda>s. None),
      dateParse = (\<lambda>s. None),
      dateToString = (\<lambda>d. ''Invalid Date''),
      toISOString = (\<lambda>t. ''1970-01-01T00:00:00.000Z'')\<rparr>"

definition sample_row :: obj where
  "sample_row =
     [(''_row'', JNum 2), (''_id'', JStr ''a1''), (''_updated'', JDate (DateObj (Some 1000))),
      (''$_action'', JNum 0), (''title'', JStr ''Ann''), (''locked'', JBool False),
      (''technologies'', JArr [JStr ''ts'', JStr ''hol''])]"

definition fresh_project :: obj where
  "fresh_project =
     [(''_row'', JNum 0), (''_id'', JStr []), (''_updated'', JDate (DateObj (Some 1000))),
      (''$_action'', JNum 0), (''title'', JStr ''Ann''), (''technologies'', JArr [])]"

definition blank_row :: obj where
  "blank_row = [(''_row'', JNum 0), (''_id'', JStr ''a1''), (''owner'', JNull), (''notes'', JUndefined)]"

text \<open>
  A tab of projects with the columns \<open>id\<close>, \<open>updated\<close> and \<open>title\<close>, keyed by \<open>id\<close>
  (the sheet's default key column). Its rows carry the position, identifier and timestamp
  under the names the sheet reads: \<open>row\<close>, \<open>id\<close> and \<open>updated\<close>. The backend holds the
  header, Ann's row (position 2, stamped 2000) and Bob's row (position 3); it answers every
  append with Bob's cells at position 4.
\<close>

definition demo_typeRows :: "jsval list list \<Rightarrow> obj list" where
  "demo_typeRows =
     map (\<lambda>cells. case cells of
            [i, u, t] \<Rightarrow> [(''row'', JNum 0), (''id'', i), (''updated'', u), (''title'', t)]
          | _ \<Rightarrow> [(''row'', JNum 0), (''id'', JStr []), (''updated'', JDate NoDate),
                   (''title'', JStr [])])"

definition ann_cells :: "int \<Rightarrow> jsval list" where
  "ann_cells t = [JStr ''a1'', JDate (DateObj (Some t)), JStr ''Ann'']"

definition bob_cells :: "jsval list" where
  "bob_cells = [JStr ''b2'', JDate (DateObj (Some 3000)), JStr ''Bob'']"

definition head_cells :: "jsval list" where
  "head_cells = [JStr ''id'', JStr ''updated'', JStr ''title'']"

definition demo_sdk :: sheetSDK where
  "demo_sdk =
     \<lparr>sheets_rowGet = (\<lambda>tab row. if row = JNum 2 then Inr (Some [ann_cells 2000]) else Inr None),
      sheets_rowCreate = (\<lambda>tab row cells. Inr \<lparr>res_row = 4, res_values = Some [bob_cells]\<rparr>),
      sheets_rowUpdate = (\<lambda>tab row cells. Inr None),
      sheets_rowDelete = (\<lambda>tab row. Inr [ann_cells 2000]),
      sheets_tabValues = (\<lambda>tab. Inr [head_cells, ann_cells 2000, bob_cells])\<rparr>"

definition demo_sheet :: "string list \<Rightarrow> jsval list list \<Rightarrow> sheet" where
  "demo_sheet hdr snapshot =
     \<lparr>sheets = demo_sdk, name = ''projects'',
      table = \<lparr>table_header = hdr, table_rows = snapshot\<rparr>,
      keyColumn = ''id'', typeRows = demo_typeRows\<rparr>"

definition demo_header :: "string list" where
  "demo_header = [''id'', ''updated'', ''title'']"

definition demo_row :: "int \<Rightarrow> string \<Rightarrow> int \<Rightarrow> obj" where
  "demo_row pos ident t =
     [(''row'', JNum pos), (''id'', JStr ident), (''updated'', JDate (DateObj (Some t))),
      (''title'', JStr ''Ann'')]"

text \<open>A table of one row, and a table of two rows next to a row not yet created.\<close>

definition demo_state :: "obj \<Rightarrow> state" where
  "demo_state r = \<lparr>heap = [r], rows = [0], index = [(to_String stub_env (lookup r ''id''), 0)]\<rparr>"

definition demo_pair :: "state" where
  "demo_pair =
     \<lparr>heap = [demo_row 2 ''a1'' 2000, demo_row 3 ''c3'' 2500, demo_row 0 ''b2'' 0],
      rows = [0, 1], index = [(''a1'', 0), (''c3'', 1)]\<rparr>"


text \<open>The states these tables are in after the runs shown below.\<close>

definition demo_prepared :: obj where
  "demo_prepared =
     demo_row 0 ''b2'' 0 @ [(''_id'', JStr ''u-1''), (''_updated'', JDate (DateObj (Some 5000)))]"

definition bob_row :: "int \<Rightarrow> obj" where
  "bob_row pos =
     [(''row'', JNum pos), (''id'', JStr ''b2''), (''updated'', JDate (DateObj (Some 3000))),
      (''title'', JStr ''Bob'')]"

definition demo_refreshed :: state where
  "demo_refreshed =
     \<lparr>heap = [demo_row 2 ''a1'' 1000, demo_row 2 ''a1'' 2000, bob_row 3],
      rows = [1, 2], index = [(''a1'', 1), (''b2'', 2)]\<rparr>"

definition demo_updated :: state where
  "demo_updated =
     \<lparr>heap = [demo_row 2 ''a1'' 2000 @
               [(''_id'', JStr ''u-1''), (''_updated'', JDate (DateObj (Some 5000)))]],
      rows = [0], index = [(''a1'', 0)]\<rparr>"

definition demo_deleted :: state where
  "demo_deleted =
     \<lparr>heap = [demo_row 2 ''a1'' 2000, demo_row 0 ''a1'' 2000], rows = [1],
      index = [(''a1'', 1)]\<rparr>"

definition demo_appended :: state where
  "demo_appended =
     \<lparr>heap = [demo_row 2 ''a1'' 2000, demo_row 3 ''c3'' 2500, demo_prepared, bob_row 4],
      rows = [0, 1, 3], index = [(''a1'', 0), (''c3'', 1), (''b2'', 3)]\<rparr>"


text \<open>
  A tab of projects whose rows are RowModel rows: a row keeps its position, identifier
  and timestamp in \<open>_row\<close>, \<open>_id\<close> and \<open>_updated\<close>, next to \<open>$_action\<close>, and has
  one column of its own, \<open>title\<close>. Typing a row of cells assigns them to a new row of
  the class; the sheet is keyed by \<open>_id\<close>. Cells are wire text, and the library
  functions for Dates know the instants used here: one, two and five seconds after the
  epoch. The backend holds the header and Ann's row at position 2, with the stamp given.
\<close>

definition iso_text :: "int \<Rightarrow> string" where
  "iso_text t =
     (if t = 1000 then ''1970-01-01T00:00:01.000Z''
      else if t = 2000 then ''1970-01-01T00:00:02.000Z''
      else if t = 5000 then ''1970-01-01T00:00:05.000Z''
      else ''1970-01-01T00:00:00.000Z'')"

definition iso_env :: env where
  "iso_env =
     stub_env
       \<lparr>dateParse := (\<lambda>s. if s = iso_text 1000 then Some 1000
                          else if s = iso_text 2000 then Some 2000
                          else if s = iso_text 5000 then Some 5000
                          else None),
        toISOString := iso_text\<rparr>"

definition rm_blank :: obj where
  "rm_blank =
     [(''_row'', JNum 0), (''_id'', JStr []), (''_updated'', JDate NoDate),
      (''$_action'', JNum 0), (''title'', JStr [])]"

definition rm_typeRows :: "jsval list list \<Rightarrow> obj list" where
  "rm_typeRows = map (\<lambda>cells. assign iso_env rm_blank (VArr cells))"

definition rm_head :: "jsval list" where
  "rm_head = [JStr ''_id'', JStr ''_updated'', JStr ''title'']"

definition ann_wire :: "int \<Rightarrow> jsval list" where
  "ann_wire t = [JStr ''a1'', JStr (iso_text t), JStr ''Ann'']"

definition rm_sdk :: "int \<Rightarrow> sheetSDK" where
  "rm_sdk t =
     \<lparr>sheets_rowGet = (\<lambda>tab row. if row = JNum 2 then Inr (Some [ann_wire t]) else Inr None),
      sheets_rowCreate = (\<lambda>tab row cells. Inr \<lparr>res_row = row, res_values = Some [map JStr cells]\<rparr>),
      sheets_rowUpdate = (\<lambda>tab row cells. Inr (Some [map JStr cells])),
      sheets_rowDelete = (\<lambda>tab row. Inr []),
      sheets_tabValues = (\<lambda>tab. Inr [rm_head, ann_wire t])\<rparr>"

definition rm_sheet :: "int \<Rightarrow> jsval list list \<Rightarrow> sheet" where
  "rm_sheet t snapshot =
     \<lparr>sheets = rm_sdk t, name = ''projects'',
      table = \<lparr>table_header = [''_id'', ''_updated'', ''title''], table_rows = snapshot\<rparr>,
      keyColumn = ''_id'', typeRows = rm_typeRows\<rparr>"

text \<open>Ann's row as typed from cells with the stamp given, and as a reload numbers it.\<close>

definition rm_row :: "int \<Rightarrow> obj" where
  "rm_row t =
     [(''_row'', JNum 0), (''_id'', JStr ''a1''), (''_updated'', JDate (DateObj (Some t))),
      (''$_action'', JNum 0), (''title'', JStr ''Ann'')]"

definition rm_numbered :: "int \<Rightarrow> obj" where
  "rm_numbered t = rm_row t @ [(''row'', JNum 2)]"

text \<open>
  The table before any row is loaded, as constructed from a snapshot with Ann's row, and
  as reloaded from the backend.
\<close>

definition rm_empty :: state where
  "rm_empty = \<lparr>heap = [], rows = [], index = []\<rparr>"

definition rm_constructed :: state where
  "rm_constructed = \<lparr>heap = [rm_row 1000], rows = [0], index = [(''a1'', 0)]\<rparr>"

definition rm_loaded :: state where
  "rm_loaded = \<lparr>heap = [rm_numbered 1000], rows = [0], index = [(''a1'', 0)]\<rparr>"

section \<open>Numbers and text: auxiliary facts\<close>

lemma digit_char_cases:
  assumes "d < 10"
  shows "d \<in> {0,1,2,3,4,5,6,7,8,9::nat}"
  using assms by auto

lemma digit_char_is_digit: "d < 10 \<Longrightarrow> is_digit (digit_char d)"
  by (drule digit_char_cases) (auto simp: is_digit_def digit_char_def)

lemma digit_char_val: "d < 10 \<Longrightarrow> digit_val (digit_char d) = int d"
  by (drule digit_char_cases) (auto simp: digit_val_def digit_char_def)

lemma digit_char_nonzero: "0 < d \<Longrightarrow> d < 10 \<Longrightarrow> digit_char d \<in> set ''123456789''"
  by (drule digit_char_cases) (auto simp: digit_char_def)

lemma nat_to_string_digits: "list_all is_digit (nat_to_string n)"
proof (induction n rule: nat_to_string.induct)
  case (1 n)
  show ?case
  proof (cases "n < 10")
    case True
    then show ?thesis by (subst nat_to_string.simps) (simp add: digit_char_is_digit)
  next
    case False
    with 1 show ?thesis
      by (subst nat_to_string.simps) (simp add: digit_char_is_digit)
  qed
qed

lemma nat_to_string_nonempty: "nat_to_string n \<noteq> []"
  by (subst nat_to_string.simps) simp

lemma nat_to_string_hd: "0 < n \<Longrightarrow> hd (nat_to_string n) \<in> set ''123456789''"
proof (induction n rule: nat_to_string.induct)
  case (1 n)
  show ?case
  proof (cases "n < 10")
    case True
    with 1(2) show ?thesis
      by (subst nat_to_string.simps) (simp add: digit_char_nonzero del: set_simps)
  next
    case False
    then have "0 < n div 10" by simp
    with 1(1) False have "hd (nat_to_string (n div 10)) \<in> set ''123456789''" by simp
    with False show ?thesis
      by (subst nat_to_string.simps) (simp add: nat_to_string_nonempty del: set_simps)
  qed
qed

lemma digits_val_snoc: "digits_val (s @ [c]) = 10 * digits_val s + digit_val c"
  by (simp add: digits_val_def)

lemma digits_val_nat_to_string: "digits_val (nat_to_string n) = int n"
proof (induction n rule: nat_to_string.induct)
  case (1 n)
  show ?case
  proof (cases "n < 10")
    case True
    then show ?thesis
      by (subst nat_to_string.simps) (simp add: digits_val_def digit_char_val)
  next
    case False
    have "int (10 * (n div 10) + n mod 10) = int n" by simp
    then have ar: "10 * int (n div 10) + int (n mod 10) = int n"
      by (simp only: of_nat_add of_nat_mult of_nat_numeral)
    from 1 False show ?thesis
      by (subst nat_to_string.simps) (simp add: digits_val_snoc digit_char_val ar)
  qed
qed

lemma nonzero_led_nat_to_string: "0 < n \<Longrightarrow> nonzero_led (nat_to_string n)"
  using nat_to_string_hd[of n] nat_to_string_digits[of n] nat_to_string_nonempty[of n]
  by (cases "nat_to_string n") (auto simp: nonzero_led_def simp del: set_simps)

lemma nat_to_string_0: "nat_to_string 0 = ''0''"
  by (subst nat_to_string.simps) (simp add: digit_char_def)

lemma nat_to_string_not_sign:
  "nat_to_string n = c # cs \<Longrightarrow> c \<noteq> CHR ''-'' \<and> c \<noteq> CHR ''+''"
  using nat_to_string_digits[of n] by (auto simp: is_digit_def)

lemma isInt_int_to_string: "isInt (int_to_string n)"
proof -
  consider "n < 0" | "n = 0" | "0 < n" by linarith
  then show ?thesis
  proof cases
    case 1
    then show ?thesis
      by (simp add: int_to_string_def isInt_def nonzero_led_nat_to_string)
  next
    case 2
    then show ?thesis by (simp add: int_to_string_def isInt_def nat_to_string_0)
  next
    case 3
    then have nz: "nonzero_led (nat_to_string (nat n))" by (simp add: nonzero_led_nat_to_string)
    obtain c cs where cs: "nat_to_string (nat n) = c # cs"
      using nat_to_string_nonempty[of "nat n"] by (cases "nat_to_string (nat n)") auto
    with nat_to_string_not_sign[OF cs] nz 3 show ?thesis
      by (simp add: int_to_string_def isInt_def)
  qed
qed

lemma parseInt10_int_to_string: "parseInt10 (int_to_string n) = n"
proof (cases "n < 0")
  case True
  then show ?thesis
    by (simp add: int_to_string_def parseInt10_def digits_val_nat_to_string)
next
  case False
  obtain c cs where cs: "nat_to_string (nat n) = c # cs"
    using nat_to_string_nonempty[of "nat n"] by (cases "nat_to_string (nat n)") auto
  from nat_to_string_not_sign[OF cs] False digits_val_nat_to_string[of "nat n"] cs
  show ?thesis
    by (simp add: int_to_string_def parseInt10_def)
qed

lemma split_on_comma_free: "c \<notin> set s \<Longrightarrow> split_on c s = [s]"
  by (induction s) auto

lemma split_on_append:
  "c \<notin> set x \<Longrightarrow> split_on c (x @ c # s) = x # split_on c s"
  by (induction x) (auto split: list.splits)

lemma split_join:
  "xs \<noteq> [] \<Longrightarrow> \<forall>x\<in>set xs. c \<notin> set x \<Longrightarrow> split_on c (join [c] xs) = xs"
proof (induction "[c]" xs rule: join.induct)
  case 1
  then show ?case by simp
next
  case (2 x)
  then show ?case by (simp add: split_on_comma_free)
next
  case (3 x y ys)
  then show ?case by (simp add: split_on_append)
qed

section \<open>Objects and assignment: auxiliary facts\<close>

lemma lookup_put: "lookup (put this k v) k' = (if k' = k then v else lookup this k')"
  by (induction this) (auto simp: lookup_def get_def)

lemma map_fst_put:
  "map fst (put this k v) = (if k \<in> set (map fst this) then map fst this else map fst this @ [k])"
proof (induction this)
  case Nil
  then show ?case by simp
next
  case (Cons kw this)
  obtain k' w where kw: "kw = (k', w)" by (cases kw)
  show ?case
  proof (cases "k' = k")
    case True
    then show ?thesis by (simp add: kw)
  next
    case False
    with Cons show ?thesis by (simp add: kw)
  qed
qed

lemma has_key_put: "has_key (put this k v) k' = (k' = k \<or> has_key this k')"
  by (auto simp: has_key_def map_fst_put)

lemma put_append_fresh:
  "k \<notin> set (map fst pre) \<Longrightarrow> put (pre @ (k, w) # suf) k v = pre @ (k, v) # suf"
  by (induction pre) auto

lemma lookup_append_fresh:
  "k \<notin> set (map fst pre) \<Longrightarrow> lookup (pre @ (k, w) # suf) k = w"
  by (induction pre) (auto simp: lookup_def get_def)

lemma typeCast_cong:
  "lookup this key = lookup that key \<Longrightarrow> typeCast e this key v = typeCast e that key v"
  by (simp add: typeCast_def row_toString_def Let_def)

lemma lookup_single: "lookup [(k, v)] k = v"
  by (simp add: lookup_def get_def)

lemma assign_named_self:
  "distinct (map fst (pre @ suf)) \<Longrightarrow>
   assign_named e (pre @ suf) suf = pre @ map (\<lambda>(k, v). (k, typeCast e [(k, v)] k v)) suf"
proof (induction suf arbitrary: pre)
  case Nil
  then show ?case by simp
next
  case (Cons kv suf)
  obtain k v where kv: "kv = (k, v)" by (cases kv)
  from Cons.prems kv have fresh: "k \<notin> set (map fst pre)" by auto
  have hk: "has_key (pre @ (k, v) # suf) k" by (simp add: has_key_def)
  have tc: "typeCast e (pre @ (k, v) # suf) k v = typeCast e [(k, v)] k v"
    by (rule typeCast_cong) (simp add: lookup_append_fresh[OF fresh] lookup_single)
  have d: "distinct (map fst ((pre @ [(k, typeCast e [(k, v)] k v)]) @ suf))"
    using Cons.prems kv by auto
  from Cons.IH[OF d] show ?case
    by (simp add: kv hk tc put_append_fresh[OF fresh])
qed

lemma join_map_text:
  "list_all comma_free_text xs \<Longrightarrow>
   map (\<lambda>v. if v = JUndefined \<or> v = JNull then [] else to_String e v) xs
     = map (\<lambda>v. case v of JStr s \<Rightarrow> s | _ \<Rightarrow> []) xs"
  by (induction xs) (auto split: jsval.splits elim: comma_free_text.elims)

lemma typeCast_roundtrip:
  assumes "roundtrip_safe v" and "\<And>b. boolDefault e (JBool b) = b"
  shows "typeCast e [(k, v)] k v = recreate v"
proof (cases v)
  case (JArr xs)
  with assms(1) have ne: "xs \<noteq> []" and cf: "list_all comma_free_text xs" by simp_all
  let ?ts = "map (\<lambda>v. case v of JStr s \<Rightarrow> s | _ \<Rightarrow> []) xs"
  have t1: "?ts \<noteq> []" using ne by simp
  have t2: "\<forall>x\<in>set (?ts). CHR '','' \<notin> set x"
    using cf by (auto simp: list_all_iff split: jsval.splits)
  have bk: "map JStr ?ts = xs"
    using cf by (induction xs) (auto split: jsval.splits elim: comma_free_text.elims)
  have "split_on CHR '','' (join '','' ?ts) = ?ts"
    using split_join[OF t1 t2] by simp
  with JArr bk show ?thesis
    by (simp add: typeCast_def lookup_single join_map_text[OF cf])
next
  case (JNum n)
  then show ?thesis
    by (simp add: typeCast_def lookup_single isInt_int_to_string parseInt10_int_to_string)
qed (use assms in \<open>simp_all add: typeCast_def lookup_single\<close>)

lemma same_value_recreate: "same_value (recreate v) v"
  by (cases v) simp_all

lemma fromObject_toObject_exact:
  assumes "distinct (map fst this)"
  shows "fromObject e this (toObject this) = map (\<lambda>(k, v). (k, typeCast e [(k, v)] k v)) this"
  using assign_named_self[of "[]" this e] assms by (simp add: fromObject_def toObject_def)

lemma int_to_string_0: "int_to_string 0 = ''0''"
  by (simp add: int_to_string_def nat_to_string_0)

lemma typeCast_fallthrough:
  assumes "typeof (lookup this key) \<notin> {''string'', ''number'', ''boolean''}"
    and "\<not> instanceof_Date (lookup this key)" and "\<not> isArray (lookup this key)"
  shows "typeCast e this key v = JStr (row_toString this)"
  using assms by (simp add: typeCast_def Let_def)

lemma lookup_assign_named:
  "distinct (map fst kvs) \<Longrightarrow>
   lookup (assign_named e this kvs) k =
     (case map_of kvs k of
        None \<Rightarrow> lookup this k
      | Some v \<Rightarrow> if has_key this k then typeCast e this k v else lookup this k)"
proof (induction kvs arbitrary: this)
  case Nil
  then show ?case by simp
next
  case (Cons kv kvs)
  obtain k0 v0 where kv: "kv = (k0, v0)" by (cases kv)
  from Cons.prems kv have d: "distinct (map fst kvs)" and nk: "map_of kvs k0 = None"
    by (auto simp: map_of_eq_None_iff)
  show ?case
  proof (cases "has_key this k0")
    case False
    with Cons.IH[OF d, of this] kv nk show ?thesis by (auto split: option.splits)
  next
    case True
    let ?this' = "put this k0 (typeCast e this k0 v0)"
    have step: "assign_named e this (kv # kvs) = assign_named e ?this' kvs"
      using True kv by simp
    show ?thesis
    proof (cases "k = k0")
      case True
      with Cons.IH[OF d, of ?this'] nk \<open>has_key this k0\<close> show ?thesis
        unfolding step by (simp add: kv lookup_put)
    next
      case False
      then have l: "lookup ?this' k = lookup this k" by (simp add: lookup_put)
      have h: "has_key ?this' k = has_key this k" using False by (simp add: has_key_put)
      have t: "\<And>v. typeCast e ?this' k v = typeCast e this k v"
        by (rule typeCast_cong) (rule l)
      from Cons.IH[OF d, of ?this'] False show ?thesis
        unfolding step by (simp add: kv l h t split: option.splits)
    qed
  qed
qed

lemma lookup_assign_pos_frame:
  "i + length vs \<le> length ks \<Longrightarrow> k \<notin> set (drop i ks) \<Longrightarrow>
   lookup (assign_pos e ks this i vs) k = lookup this k"
proof (induction vs arbitrary: this i)
  case Nil
  then show ?case by simp
next
  case (Cons v vs)
  from Cons.prems have i: "i < length ks" by simp
  then have ki: "key_at ks i = ks ! i" by (simp add: key_at_def)
  from i have dr: "drop i ks = ks ! i # drop (Suc i) ks" by (simp add: Cons_nth_drop_Suc)
  with Cons.prems have ne: "k \<noteq> ks ! i" and rest: "k \<notin> set (drop (Suc i) ks)" by auto
  from Cons.prems have len: "Suc i + length vs \<le> length ks" by simp
  show ?case
    using Cons.IH[OF len rest] ne by (simp add: ki lookup_put)
qed

lemma lookup_assign_pos_untyped:
  assumes "distinct ks"
  shows "i + length vs \<le> length ks \<Longrightarrow> p < length vs \<Longrightarrow>
     vs ! p \<noteq> JUndefined \<Longrightarrow> vs ! p \<noteq> JNull \<Longrightarrow>
     typeof (lookup this (ks ! (i + p))) \<notin> {''string'', ''number'', ''boolean''} \<Longrightarrow>
     \<not> instanceof_Date (lookup this (ks ! (i + p))) \<Longrightarrow> \<not> isArray (lookup this (ks ! (i + p))) \<Longrightarrow>
     lookup (assign_pos e ks this i vs) (ks ! (i + p)) = JStr (row_toString this)"
proof (induction vs arbitrary: this i p)
  case Nil
  then show ?case by simp
next
  case (Cons v vs)
  from Cons.prems have i: "i < length ks" by simp
  then have ki: "key_at ks i = ks ! i" by (simp add: key_at_def)
  from Cons.prems have len: "Suc i + length vs \<le> length ks" by simp
  show ?case
  proof (cases p)
    case 0
    have fresh: "ks ! i \<notin> set (drop (Suc i) ks)"
    proof
      assume "ks ! i \<in> set (drop (Suc i) ks)"
      then obtain j where j: "j < length (drop (Suc i) ks)" "drop (Suc i) ks ! j = ks ! i"
        by (auto simp: in_set_conv_nth)
      then have "ks ! (Suc i + j) = ks ! i" "Suc i + j < length ks" by auto
      with assms i show False by (auto simp: nth_eq_iff_index_eq)
    qed
    from Cons.prems 0 have tc: "typeCast e this (ks ! i) v = JStr (row_toString this)"
      by (intro typeCast_fallthrough) simp_all
    from Cons.prems 0 have nn: "v \<noteq> JUndefined \<and> v \<noteq> JNull" by simp
    show ?thesis
      using lookup_assign_pos_frame[OF len fresh] nn
      by (simp add: 0 ki tc lookup_put)
  next
    case (Suc q)
    from Cons.prems Suc i have ne: "ks ! (i + p) \<noteq> ks ! i"
      using assms by (auto simp: nth_eq_iff_index_eq)
    have ip: "Suc i + q = i + p" using Suc by simp
    from Cons.prems Suc have q: "q < length vs" "vs ! q \<noteq> JUndefined" "vs ! q \<noteq> JNull"
      by simp_all
    have go: "lookup (assign_pos e ks that (Suc i) vs) (ks ! (i + p)) = JStr (row_toString that)"
      if "lookup that (ks ! (i + p)) = lookup this (ks ! (i + p))" for that
      using Cons.IH[OF len q, of that] Cons.prems(5,6,7) that by (simp only: ip) simp
    show ?thesis
    proof (cases "v \<noteq> JUndefined \<and> v \<noteq> JNull")
      case True
      have "lookup (put this (ks ! i) (typeCast e this (ks ! i) v)) (ks ! (i + p))
            = lookup this (ks ! (i + p))"
        using ne by (simp add: lookup_put)
      from go[OF this] True show ?thesis by (simp add: ki row_toString_def)
    next
      case False
      with go[of this] show ?thesis by (auto simp: ki)
    qed
  qed
qed

lemma distinct_header: "distinct (keys this) \<Longrightarrow> distinct (header this)"
  by (simp add: header_def)

section \<open>RowModel: the cell sentinel\<close>

text \<open>
  Claim C4, as amended. \<open>stringer(undefined)\<close> is the nil sentinel and \<open>stringer("")\<close>
  is the empty text, and the two differ. For a row whose target field holds text,
  \<open>typeCast\<close> of the sentinel returns the sentinel text itself (the code has no case that
  turns it into the empty text), and \<open>typeCast\<close> of \<open>undefined\<close> or \<open>null\<close> returns the
  empty text. \<open>typeCast\<close> is a total function here: it does not throw.
\<close>

theorem stringer_sentinel:
  "stringer e JUndefined = Inr nilCell \<and> stringer e (JStr []) = Inr []
   \<and> stringer e JUndefined \<noteq> stringer e (JStr [])
   \<and> (typeof (lookup this key) = ''string'' \<longrightarrow>
        typeCast e this key (JStr nilCell) = JStr nilCell
        \<and> typeCast e this key JUndefined = JStr []
        \<and> typeCast e this key JNull = JStr [])"
  by (simp add: nilCell_def typeCast_def)

text \<open>Witness for C4: the \<open>title\<close> field of a sample row holds text.\<close>

theorem stringer_sentinel_witness:
  "typeof (lookup sample_row ''title'') = ''string''
   \<and> typeCast stub_env sample_row ''title'' (JStr nilCell) = JStr nilCell
   \<and> typeCast stub_env sample_row ''title'' JUndefined = JStr []"
proof -
  have t: "typeof (lookup sample_row ''title'') = ''string''"
    by (simp add: sample_row_def lookup_def get_def)
  with stringer_sentinel[of stub_env sample_row "''title''"] show ?thesis by simp
qed

text \<open>
  Counterexample to C4 as stated: on the text field \<open>title\<close>, \<open>typeCast\<close> of the
  sentinel is not the empty text.
\<close>

theorem typeCast_sentinel_counterexample:
  "typeof (lookup sample_row ''title'') = ''string''
   \<and> typeCast stub_env sample_row ''title'' (JStr nilCell) \<noteq> JStr []"
  by (simp add: sample_row_def lookup_def get_def typeCast_def nilCell_def)

section \<open>RowModel: fields no branch of typeCast matches\<close>

text \<open>
  Claim C10. When the current value of a field is neither text, number, boolean, Date
  nor array (it is \<open>undefined\<close>, \<open>null\<close> or another object), \<open>typeCast\<close> returns the
  text rendering of the row, whatever value is supplied. So \<open>assign\<close> stores that
  rendering in such a field and not the incoming value: by name when the source names the
  field, and by position when the source has a cell for the field's column.
\<close>

theorem typeCast_untyped_field:
  assumes "typeof (lookup this key) \<notin> {''string'', ''number'', ''boolean''}"
    and "\<not> instanceof_Date (lookup this key)" and "\<not> isArray (lookup this key)"
  shows "typeCast e this key v = JStr (row_toString this)
    \<and> (has_key this key \<and> distinct (map fst kvs) \<and> key \<in> set (map fst kvs) \<longrightarrow>
         lookup (assign e this (VObj kvs)) key = JStr (row_toString this))
    \<and> (distinct (keys this) \<and> length vs \<le> length (header this) \<and> i < length vs
         \<and> vs ! i \<noteq> JUndefined \<and> vs ! i \<noteq> JNull \<and> header this ! i = key \<longrightarrow>
         lookup (assign e this (VArr vs)) key = JStr (row_toString this))"
proof (intro conjI impI)
  show tc: "typeCast e this key v = JStr (row_toString this)" for v
    using assms by (rule typeCast_fallthrough)
  {
    assume a: "has_key this key \<and> distinct (map fst kvs) \<and> key \<in> set (map fst kvs)"
    then obtain w where w: "map_of kvs key = Some w"
      by (cases "map_of kvs key") (auto simp: map_of_eq_None_iff)
    with a show "lookup (assign e this (VObj kvs)) key = JStr (row_toString this)"
      by (simp add: lookup_assign_named tc)
  }
  {
    assume a: "distinct (keys this) \<and> length vs \<le> length (header this) \<and> i < length vs
         \<and> vs ! i \<noteq> JUndefined \<and> vs ! i \<noteq> JNull \<and> header this ! i = key"
    then have d: "distinct (header this)" by (simp add: distinct_header)
    from a assms
    have "lookup (assign_pos e (header this) this 0 vs) (header this ! (0 + i)) = JStr (row_toString this)"
      by (intro lookup_assign_pos_untyped[OF d]) simp_all
    with a show "lookup (assign e this (VArr vs)) key = JStr (row_toString this)" by simp
  }
qed

text \<open>Witness for C10: the field \<open>owner\<close> of a sample row is \<open>null\<close>.\<close>

theorem typeCast_untyped_field_witness:
  "typeof (lookup blank_row ''owner'') \<notin> {''string'', ''number'', ''boolean''}
   \<and> \<not> instanceof_Date (lookup blank_row ''owner'') \<and> \<not> isArray (lookup blank_row ''owner'')
   \<and> typeCast stub_env blank_row ''owner'' (JStr ''Ann'') = JStr ''[object Object]''
   \<and> lookup (assign stub_env blank_row (VObj [(''owner'', JStr ''Ann'')])) ''owner'' = JStr ''[object Object]''
   \<and> lookup (assign stub_env blank_row (VArr [JStr ''a2'', JStr ''Ann''])) ''owner'' = JStr ''[object Object]''"
proof -
  have a: "typeof (lookup blank_row ''owner'') \<notin> {''string'', ''number'', ''boolean''}"
    and b: "\<not> instanceof_Date (lookup blank_row ''owner'')"
    and c: "\<not> isArray (lookup blank_row ''owner'')"
    by (simp_all add: blank_row_def lookup_def get_def)
  have h: "header blank_row = [''_id'', ''owner'', ''notes'']"
    by (simp add: header_def keys_def blank_row_def startsWith_def)
  have k: "has_key blank_row ''owner'' \<and> distinct (keys blank_row)"
    by (simp add: has_key_def keys_def blank_row_def)
  from typeCast_untyped_field[OF a b c, of stub_env "JStr ''Ann''" "[(''owner'', JStr ''Ann'')]"
      "[JStr ''a2'', JStr ''Ann'']" 1] a b c h k
  show ?thesis by (simp add: row_toString_def lookup_put)
qed

section \<open>RowModel: round trip through a plain object\<close>

text \<open>
  Claim C9, as amended. For every record whose fields hold only text, numbers, booleans,
  Dates and non-empty arrays of comma-free text, and with a \<open>boolDefault\<close> that returns
  a boolean as it is, \<open>fromObject\<close> applied to the result of \<open>toObject\<close> reproduces the
  record: the same keys in the same order, each with an equal value, a Date being
  reproduced as a new Date of the same time value.
\<close>

theorem fromObject_toObject_roundtrip:
  assumes "distinct (keys this)"
    and "\<forall>b. boolDefault e (JBool b) = b"
    and "list_all roundtrip_safe (map snd this)"
  shows "same_record (fromObject e this (toObject this)) this"
proof -
  have ex: "fromObject e this (toObject this) = map (\<lambda>(k, v). (k, recreate v)) this"
    unfolding fromObject_toObject_exact[OF assms(1)[unfolded keys_def]]
    using assms(2,3) by (auto simp: typeCast_roundtrip list_all_iff)
  show ?thesis
    unfolding ex same_record_def
    by (induction this) (auto simp: same_value_recreate)
qed

text \<open>Witness for C9: a sample row with a field of each supported kind.\<close>

theorem fromObject_toObject_roundtrip_witness:
  "distinct (keys sample_row) \<and> (\<forall>b. boolDefault stub_env (JBool b) = b)
   \<and> list_all roundtrip_safe (map snd sample_row)
   \<and> same_record (fromObject stub_env sample_row (toObject sample_row)) sample_row"
proof -
  have a: "distinct (keys sample_row)" by (simp add: sample_row_def keys_def)
  have b: "\<forall>b. boolDefault stub_env (JBool b) = b" by (simp add: stub_env_def)
  have c: "list_all roundtrip_safe (map snd sample_row)" by (simp add: sample_row_def)
  from fromObject_toObject_roundtrip[OF a b c] a b c show ?thesis by blast
qed

text \<open>
  Counterexample to C9 as stated: a record whose \<open>technologies\<close> field is the empty
  array comes back with an array of one empty text.
\<close>

theorem fromObject_toObject_counterexample:
  "lookup fresh_project ''technologies'' = JArr []
   \<and> lookup (fromObject stub_env fresh_project (toObject fresh_project)) ''technologies'' = JArr [JStr []]
   \<and> fromObject stub_env fresh_project (toObject fresh_project) \<noteq> fresh_project"
proof -
  have d: "distinct (map fst fresh_project)" by (simp add: fresh_project_def)
  have r: "fromObject stub_env fresh_project (toObject fresh_project) =
     [(''_row'', JNum 0), (''_id'', JStr []), (''_updated'', JDate (DateObj (Some 1000))),
      (''$_action'', JNum 0), (''title'', JStr ''Ann''), (''technologies'', JArr [JStr []])]"
    unfolding fromObject_toObject_exact[OF d]
    by (simp add: fresh_project_def typeCast_def lookup_def get_def isInt_def int_to_string_0
        parseInt10_def digits_val_def digit_val_def)
  show ?thesis unfolding r by (simp add: fresh_project_def lookup_def get_def)
qed

section \<open>WhollySheet: index and store, auxiliary facts\<close>

lemma map_of_put: "map_of (put al k v) = (map_of al)(k \<mapsto> v)"
  by (induction al) (auto simp: fun_eq_iff)

lemma get_put: "get (put al k v) k' = (if k' = k then Some v else get al k')"
  by (simp add: get_def map_of_put)

lemma build_index_snoc: "build_index f (as @ [a]) = put (build_index f as) (f a) a"
  by (simp add: build_index_def)

lemma build_index_hit:
  "distinct (map f as) \<Longrightarrow> a \<in> set as \<Longrightarrow> get (build_index f as) (f a) = Some a"
proof (induction as rule: rev_induct)
  case Nil
  then show ?case by simp
next
  case (snoc x xs)
  show ?case
  proof (cases "a = x")
    case True
    then show ?thesis by (simp add: build_index_snoc get_put)
  next
    case False
    with snoc.prems have ax: "a \<in> set xs" and d: "distinct (map f xs)" by auto
    have "f a \<in> f ` set xs" using ax by (rule imageI)
    with snoc.prems have "f a \<noteq> f x" by auto
    with snoc.IH[OF d ax] show ?thesis by (simp add: build_index_snoc get_put)
  qed
qed

lemma set_put: "set (put al k v) \<subseteq> insert (k, v) (set al)"
  by (induction al) (auto split: if_splits)

lemma build_index_entries:
  "(k, a) \<in> set (build_index f as) \<Longrightarrow> a \<in> set as \<and> f a = k"
proof (induction as arbitrary: k a rule: rev_induct)
  case Nil
  then show ?case by (simp add: build_index_def)
next
  case (snoc x xs)
  from snoc.prems set_put[of "build_index f xs" "f x" x]
  have "(k, a) = (f x, x) \<or> (k, a) \<in> set (build_index f xs)"
    by (auto simp: build_index_snoc)
  with snoc.IH show ?case by auto
qed


lemma createIndex_build:
  "createIndex e ws st = st\<lparr>index := build_index (\<lambda>a. key_of e ws (heap st ! a)) (rows st)\<rparr>"
  by (simp add: createIndex_def)

lemma createIndex_fields [simp]:
  "heap (createIndex e ws st) = heap st" "rows (createIndex e ws st) = rows st"
  by (simp_all add: createIndex_def)

lemma createIndex_idem: "createIndex e ws (createIndex e ws st) = createIndex e ws st"
  by (simp add: createIndex_def)

lemma createIndex_consistent:
  assumes "createIndex e ws st' = st'" and "distinct_keys e ws st'"
  shows "index_consistent e ws st'"
proof -
  let ?f = "\<lambda>a. key_of e ws (heap st' ! a)"
  have ix: "index st' = build_index ?f (rows st')"
    by (subst assms(1)[symmetric]) (simp add: createIndex_build)
  show ?thesis
    unfolding index_consistent_def ix list_all_iff
    using assms(2) build_index_hit[of ?f "rows st'"] build_index_entries[of _ _ ?f "rows st'"]
    by (auto simp: distinct_keys_def)
qed

lemma set_positions_other:
  "a \<notin> set as \<Longrightarrow> set_positions h as i ! a = h ! a"
  by (induction as arbitrary: h i) (auto simp: nth_list_update)

lemma set_positions_nth:
  "distinct as \<Longrightarrow> j < length as \<Longrightarrow> as ! j < length h \<Longrightarrow>
   set_positions h as i ! (as ! j) = put (h ! (as ! j)) ''row'' (JNum (int (i + j) + 2))"
proof (induction as arbitrary: h i j)
  case Nil
  then show ?case by simp
next
  case (Cons a as)
  show ?case
  proof (cases j)
    case 0
    with Cons.prems show ?thesis by (simp add: set_positions_other)
  next
    case (Suc q)
    with Cons.prems have ne: "as ! q \<noteq> a" by auto
    from Cons.prems Suc
    have "set_positions (h[a := put (h ! a) ''row'' (JNum (int i + 2))]) as (Suc i) ! (as ! q)
          = put ((h[a := put (h ! a) ''row'' (JNum (int i + 2))]) ! (as ! q)) ''row''
              (JNum (int (Suc i + q) + 2))"
      by (intro Cons.IH) simp_all
    with ne Suc show ?thesis by (simp add: nth_list_update)
  qed
qed

lemma refresh_rows:
  assumes "refresh e ws st = (Inr rs, st', log)"
  shows "\<exists>vals. sheets_tabValues (sheets ws) (name ws) = Inr vals
      \<and> log = [ReqTabValues (name ws)]
      \<and> rows st' = rs
      \<and> rs = [length (heap st) ..< length (heap st) + length (typeRows ws (drop 1 vals))]
      \<and> (\<forall>i<length rs. heap st' ! (rs ! i)
            = put (typeRows ws (drop 1 vals) ! i) ''row'' (JNum (int i + 2)))
      \<and> st' = createIndex e ws st'"
proof -
  from assms obtain vals where v: "sheets_tabValues (sheets ws) (name ws) = Inr vals"
    by (cases "sheets_tabValues (sheets ws) (name ws)") (auto simp: refresh_def)
  let ?objs = "typeRows ws (drop 1 vals)"
  let ?as = "[length (heap st) ..< length (heap st) + length ?objs]"
  let ?h = "set_positions (heap st @ ?objs) ?as 0"
  from assms v have rs: "rs = ?as" and lg: "log = [ReqTabValues (name ws)]"
    and st': "st' = createIndex e ws (st\<lparr>heap := ?h, rows := ?as\<rparr>)"
    by (auto simp: refresh_def alloc_def)
  have nth: "?h ! (?as ! i) = put (?objs ! i) ''row'' (JNum (int i + 2))" if "i < length ?objs" for i
  proof -
    have "?h ! (?as ! i) = put ((heap st @ ?objs) ! (?as ! i)) ''row'' (JNum (int (0 + i) + 2))"
      using that by (intro set_positions_nth) simp_all
    with that show ?thesis by (simp add: nth_append)
  qed
  show ?thesis
    using v lg rs st' nth by (auto simp: createIndex_idem)
qed

lemma refresh_createIndex:
  "refresh e ws st = (Inr rs, st', log) \<Longrightarrow> createIndex e ws st' = st'"
  using refresh_rows[of e ws st rs st' log] by auto

lemma create_createIndex:
  assumes "create e ws uuid now st m = (Inr r, st', log)"
  shows "createIndex e ws st' = st'"
  using assms
  by (auto simp: create_def Let_def createIndex_idem
      split: if_splits sum.splits option.splits list.splits prod.splits
      dest: refresh_createIndex)

lemma update_createIndex:
  assumes "update e ws uuid now st m = (Inr r, st', log)"
  shows "createIndex e ws st' = st'"
  using assms
  by (auto simp: update_def Let_def createIndex_idem
      split: if_splits sum.splits option.splits list.splits prod.splits)

lemma delete_createIndex:
  assumes "delete e ws st m = (Inr r, st', log)"
  shows "createIndex e ws st' = st'"
  using assms
  by (auto simp: delete_def Let_def createIndex_idem alloc_def
      split: if_splits sum.splits option.splits list.splits prod.splits)


section \<open>WhollySheet: runs on the example data\<close>

lemma demo_refresh:
  "refresh stub_env (demo_sheet demo_header []) (demo_state (demo_row 2 ''a1'' 1000))
     = (Inr [1, 2], demo_refreshed, [ReqTabValues ''projects''])"
  by code_simp

lemma demo_update:
  "update stub_env (demo_sheet demo_header []) ''u-1'' 5000 (demo_state (demo_row 2 ''a1'' 2000)) 0
     = (Inr (Some 0), demo_updated,
        [ReqRowGet ''projects'' (JNum 2),
         ReqRowUpdate ''projects'' (JNum 2) [''a1'', ''1970-01-01T00:00:00.000Z'', ''Ann'']])"
  by code_simp

lemma demo_delete:
  "delete stub_env (demo_sheet demo_header []) (demo_state (demo_row 2 ''a1'' 2000)) 0
     = (Inr True, demo_deleted,
        [ReqRowGet ''projects'' (JNum 2), ReqRowDelete ''projects'' (JNum 2)])"
  by code_simp

lemma demo_create_append:
  "create stub_env (demo_sheet demo_header []) ''u-1'' 5000 demo_pair 2
     = (Inr (Some 3), demo_appended,
        [ReqRowCreate ''projects'' 4 [''b2'', ''1970-01-01T00:00:00.000Z'', ''Ann'']])"
  by code_simp


section \<open>WhollySheet: refresh\<close>

text \<open>
  Claim C7. After a refresh that returns, the rows are the typed rows of the fetched tab
  values without their first (header) row, in order; the row at index \<open>i\<close> of \<open>rows\<close>
  has position \<open>i + 2\<close>; and the index is the one \<open>createIndex\<close> builds over the new
  rows.
\<close>

theorem refresh_positions:
  assumes "refresh e ws st = (Inr rs, st', log)"
  shows "\<exists>vals. sheets_tabValues (sheets ws) (name ws) = Inr vals
      \<and> rows st' = rs
      \<and> map (\<lambda>a. heap st' ! a) (rows st')
          = map (\<lambda>(i, r). put r ''row'' (JNum (int i + 2)))
              (enumerate 0 (typeRows ws (drop 1 vals)))
      \<and> (\<forall>i<length (rows st'). lookup (heap st' ! (rows st' ! i)) ''row'' = JNum (int i + 2))
      \<and> createIndex e ws st' = st'"
proof -
  from refresh_rows[OF assms] obtain vals where
    v: "sheets_tabValues (sheets ws) (name ws) = Inr vals" and r: "rows st' = rs"
    and rs: "rs = [length (heap st) ..< length (heap st) + length (typeRows ws (drop 1 vals))]"
    and nth: "\<forall>i<length rs. heap st' ! (rs ! i)
            = put (typeRows ws (drop 1 vals) ! i) ''row'' (JNum (int i + 2))"
    and ci: "st' = createIndex e ws st'" by blast
  have len: "length rs = length (typeRows ws (drop 1 vals))" using rs by simp
  have m: "map (\<lambda>a. heap st' ! a) (rows st')
          = map (\<lambda>(i, r). put r ''row'' (JNum (int i + 2)))
              (enumerate 0 (typeRows ws (drop 1 vals)))"
    using nth len r by (intro nth_equalityI) (simp_all add: nth_enumerate_eq)
  have p: "\<forall>i<length (rows st'). lookup (heap st' ! (rows st' ! i)) ''row'' = JNum (int i + 2)"
    using nth r by (simp add: lookup_put)
  from v r m p ci show ?thesis by auto
qed

text \<open>Witness for C7: the example tab is reloaded into two rows, at positions 2 and 3.\<close>

theorem refresh_positions_witness:
  "refresh stub_env (demo_sheet demo_header []) (demo_state (demo_row 2 ''a1'' 1000))
     = (Inr [1, 2], demo_refreshed, [ReqTabValues ''projects''])
   \<and> rows demo_refreshed = [1, 2]
   \<and> lookup (heap demo_refreshed ! (rows demo_refreshed ! 0)) ''row'' = JNum 2
   \<and> lookup (heap demo_refreshed ! (rows demo_refreshed ! 1)) ''row'' = JNum 3
   \<and> createIndex stub_env (demo_sheet demo_header []) demo_refreshed = demo_refreshed"
proof -
  from refresh_positions[OF demo_refresh]
  have r: "rows demo_refreshed = [1, 2]"
    and p: "\<forall>i<length (rows demo_refreshed).
         lookup (heap demo_refreshed ! (rows demo_refreshed ! i)) ''row'' = JNum (int i + 2)"
    and c: "createIndex stub_env (demo_sheet demo_header []) demo_refreshed = demo_refreshed"
    by auto
  have l: "(0::nat) < length (rows demo_refreshed)" "(1::nat) < length (rows demo_refreshed)"
    by (simp_all add: r)
  from p l have "lookup (heap demo_refreshed ! (rows demo_refreshed ! 0)) ''row'' = JNum (int 0 + 2)"
    "lookup (heap demo_refreshed ! (rows demo_refreshed ! 1)) ''row'' = JNum (int 1 + 2)"
    by blast+
  with r c demo_refresh show ?thesis by simp
qed

section \<open>WhollySheet: the index after an operation\<close>

text \<open>
  Rows whose key values are text and pairwise different are filed under pairwise
  different names.
\<close>

lemma distinct_keys_text:
  assumes "list_all (\<lambda>a. typeof (lookup (heap st ! a) (keyColumn ws)) = ''string'') (rows st)"
    and "distinct (map (\<lambda>a. lookup (heap st ! a) (keyColumn ws)) (rows st))"
  shows "distinct_keys e ws st"
proof -
  have inj: "inj_on (to_String e) {v. typeof v = ''string''}"
  proof (rule inj_onI)
    fix x y
    assume "x \<in> {v. typeof v = ''string''}" "y \<in> {v. typeof v = ''string''}"
      "to_String e x = to_String e y"
    then show "x = y" by (cases x; cases y) (auto split: if_splits)
  qed
  have sub: "set (map (\<lambda>a. lookup (heap st ! a) (keyColumn ws)) (rows st))
      \<subseteq> {v. typeof v = ''string''}"
    using assms(1) by (auto simp: list_all_iff)
  have "distinct (map (to_String e) (map (\<lambda>a. lookup (heap st ! a) (keyColumn ws)) (rows st)))"
    using assms(2) inj sub by (simp only: distinct_map) (blast intro: inj_on_subset)
  then show ?thesis by (simp add: distinct_keys_def key_of_def comp_def)
qed

text \<open>
  Claim C3. After a successful create, update, delete or refresh that leaves the table
  with rows of pairwise different keys, the index maps the (stringified) key of every row
  to that very row, and every entry of the index belongs to a row of \<open>rows\<close>, under
  that row's key. The keys are compared as \<open>createIndex\<close> files them, by their text;
  for key values that are text this is the comparison of the values.
\<close>

theorem index_consistent_after:
  "(create e ws uuid now st m = (Inr r1, st', log) \<and> distinct_keys e ws st'
      \<longrightarrow> index_consistent e ws st')
   \<and> (update e ws uuid now st m = (Inr r2, st', log) \<and> distinct_keys e ws st'
      \<longrightarrow> index_consistent e ws st')
   \<and> (delete e ws st m = (Inr r3, st', log) \<and> distinct_keys e ws st'
      \<longrightarrow> index_consistent e ws st')
   \<and> (refresh e ws st = (Inr r4, st', log) \<and> distinct_keys e ws st'
      \<longrightarrow> index_consistent e ws st')"
  using create_createIndex[of e ws uuid now st m r1 st' log]
    update_createIndex[of e ws uuid now st m r2 st' log]
    delete_createIndex[of e ws st m r3 st' log]
    refresh_createIndex[of e ws st r4 st' log]
    createIndex_consistent[of e ws st']
  by metis

text \<open>
  Witness for C3: an append, an update, a delete and a refresh on the example data, each
  successful and each leaving rows of different keys.
\<close>

theorem index_consistent_after_witness:
  "create stub_env (demo_sheet demo_header []) ''u-1'' 5000 demo_pair 2
     = (Inr (Some 3), demo_appended,
        [ReqRowCreate ''projects'' 4 [''b2'', ''1970-01-01T00:00:00.000Z'', ''Ann'']])
   \<and> distinct_keys stub_env (demo_sheet demo_header []) demo_appended
   \<and> index_consistent stub_env (demo_sheet demo_header []) demo_appended
   \<and> update stub_env (demo_sheet demo_header []) ''u-1'' 5000 (demo_state (demo_row 2 ''a1'' 2000)) 0
     = (Inr (Some 0), demo_updated,
        [ReqRowGet ''projects'' (JNum 2),
         ReqRowUpdate ''projects'' (JNum 2) [''a1'', ''1970-01-01T00:00:00.000Z'', ''Ann'']])
   \<and> distinct_keys stub_env (demo_sheet demo_header []) demo_updated
   \<and> index_consistent stub_env (demo_sheet demo_header []) demo_updated
   \<and> delete stub_env (demo_sheet demo_header []) (demo_state (demo_row 2 ''a1'' 2000)) 0
     = (Inr True, demo_deleted,
        [ReqRowGet ''projects'' (JNum 2), ReqRowDelete ''projects'' (JNum 2)])
   \<and> distinct_keys stub_env (demo_sheet demo_header []) demo_deleted
   \<and> index_consistent stub_env (demo_sheet demo_header []) demo_deleted
   \<and> refresh stub_env (demo_sheet demo_header []) (demo_state (demo_row 2 ''a1'' 1000))
     = (Inr [1, 2], demo_refreshed, [ReqTabValues ''projects''])
   \<and> distinct_keys stub_env (demo_sheet demo_header []) demo_refreshed
   \<and> index_consistent stub_env (demo_sheet demo_header []) demo_refreshed"
proof -
  let ?ws = "demo_sheet demo_header []"
  have dc: "distinct_keys stub_env ?ws demo_appended" by code_simp
  have du: "distinct_keys stub_env ?ws demo_updated" by code_simp
  have dd: "distinct_keys stub_env ?ws demo_deleted" by code_simp
  have dr: "distinct_keys stub_env ?ws demo_refreshed" by code_simp
  have c: "index_consistent stub_env ?ws demo_appended"
    using index_consistent_after[of stub_env ?ws "''u-1''" 5000 demo_pair 2 "Some 3" demo_appended
        "[ReqRowCreate ''projects'' 4 [''b2'', ''1970-01-01T00:00:00.000Z'', ''Ann'']]"]
      demo_create_append dc by blast
  have u: "index_consistent stub_env ?ws demo_updated"
    using index_consistent_after[of stub_env ?ws "''u-1''" 5000
        "demo_state (demo_row 2 ''a1'' 2000)" 0 _ demo_updated
        "[ReqRowGet ''projects'' (JNum 2),
          ReqRowUpdate ''projects'' (JNum 2) [''a1'', ''1970-01-01T00:00:00.000Z'', ''Ann'']]"
        "Some 0"]
      demo_update du by blast
  have d: "index_consistent stub_env ?ws demo_deleted"
    using index_consistent_after[of stub_env ?ws _ _ "demo_state (demo_row 2 ''a1'' 2000)" 0 _
        demo_deleted "[ReqRowGet ''projects'' (JNum 2), ReqRowDelete ''projects'' (JNum 2)]" _ True]
      demo_delete dd by blast
  have r: "index_consistent stub_env ?ws demo_refreshed"
    using index_consistent_after[of stub_env ?ws _ _ "demo_state (demo_row 2 ''a1'' 1000)" _ _
        demo_refreshed "[ReqTabValues ''projects'']" _ _ "[1, 2]"]
      demo_refresh dr by blast
  from c u d r dc du dd dr demo_create_append demo_update demo_delete demo_refresh
  show ?thesis by simp
qed

section \<open>WhollySheet: stale rows\<close>

text \<open>
  Claim C1 does not hold of the code. \<open>checkOutdated\<close> compares timestamps only when
  the fetched row has a property \<open>updated\<close>, and a RowModel row has none: the class
  keeps its timestamp in \<open>_updated\<close>, where \<open>prepare\<close> stamps it. So on the rows this
  program types the comparison is never made. Here Ann's row is loaded with the stamp of
  second one, and the backend's copy at position 2 is then stamped second two. The row
  fetched for the check carries the newer stamp, a second apart from the caller's, yet
  \<open>checkOutdated\<close> reports nothing: \<open>update\<close> sends the row-update request and
  overwrites the row, \<open>delete\<close> sends the row-delete request and replaces the rows.
  Neither fails with a Conflict.
\<close>

theorem stale_row_passes_check:
  "refresh iso_env (rm_sheet 1000 []) rm_empty
     = (Inr [0], rm_loaded, [ReqTabValues ''projects''])
   \<and> rowGet (rm_sheet 2000 []) (JNum 2) = Inr (Some (rm_row 2000))
   \<and> compareDates (lookup (rm_row 2000) ''_updated'') (lookup (heap rm_loaded ! 0) ''_updated'')
       = Inr (Some 1000)
   \<and> lookup (rm_row 2000) ''updated'' = JUndefined
   \<and> checkOutdated iso_env (rm_sheet 2000 []) (heap rm_loaded ! 0)
       = (Inr False, [ReqRowGet ''projects'' (JNum 2)])
   \<and> update iso_env (rm_sheet 2000 []) ''u-1'' 5000 rm_loaded 0
       = (Inr (Some 0),
          \<lparr>heap = [rm_numbered 5000], rows = [0], index = [(''a1'', 0)]\<rparr>,
          [ReqRowGet ''projects'' (JNum 2),
           ReqRowUpdate ''projects'' (JNum 2) [''a1'', iso_text 5000, ''Ann'']])
   \<and> delete iso_env (rm_sheet 2000 []) rm_loaded 0
       = (Inr True,
          \<lparr>heap = [rm_numbered 1000], rows = [], index = []\<rparr>,
          [ReqRowGet ''projects'' (JNum 2), ReqRowDelete ''projects'' (JNum 2)])"
  by code_simp

section \<open>WhollySheet: a create that loses the race for its position\<close>



section \<open>WhollySheet: construction\<close>

text \<open>
  Claim C5, as amended. Construction compares headers only when the snapshot types into
  at least one row: it then fails with SchemaMismatch exactly when the comma-joined header
  of the first typed row differs from the comma-joined header of the snapshot, and
  otherwise stores the typed rows and builds the index over them. A snapshot that types
  into no rows is accepted without a check, with empty \<open>rows\<close> and an empty index.
\<close>

theorem construct_checks_header:
  "(typeRows ws (table_rows (table ws)) = [] \<longrightarrow>
      construct e ws h0 = Inr \<lparr>heap = h0, rows = [], index = []\<rparr>)
   \<and> (\<forall>r rs. typeRows ws (table_rows (table ws)) = r # rs \<longrightarrow>
        (join '','' (table_header (table ws)) \<noteq> join '','' (header r) \<longrightarrow>
           construct e ws h0
             = Inl (SchemaMismatch (join '','' (header r)) (join '','' (table_header (table ws)))))
        \<and> (join '','' (table_header (table ws)) = join '','' (header r) \<longrightarrow>
             (\<exists>st. construct e ws h0 = Inr st
                \<and> heap st = h0 @ r # rs
                \<and> rows st = [length h0 ..< length h0 + length (r # rs)]
                \<and> createIndex e ws st = st)))"
proof (intro conjI allI impI)
  assume "typeRows ws (table_rows (table ws)) = []"
  then show "construct e ws h0 = Inr \<lparr>heap = h0, rows = [], index = []\<rparr>"
    by (simp add: construct_def alloc_def checkHeader_def createIndex_def build_index_def)
next
  fix r rs
  assume t: "typeRows ws (table_rows (table ws)) = r # rs"
  have up: "[length h0 ..< Suc (length h0 + length rs)]
      = length h0 # [Suc (length h0) ..< Suc (length h0 + length rs)]"
    by (rule upt_conv_Cons) simp
  {
    assume "join '','' (table_header (table ws)) \<noteq> join '','' (header r)"
    with t up show "construct e ws h0
        = Inl (SchemaMismatch (join '','' (header r)) (join '','' (table_header (table ws))))"
      by (simp add: construct_def alloc_def checkHeader_def Let_def)
  }
  {
    assume "join '','' (table_header (table ws)) = join '','' (header r)"
    with t up show "\<exists>st. construct e ws h0 = Inr st
                \<and> heap st = h0 @ r # rs
                \<and> rows st = [length h0 ..< length h0 + length (r # rs)]
                \<and> createIndex e ws st = st"
      by (simp add: construct_def alloc_def checkHeader_def Let_def createIndex_idem)
  }
qed

text \<open>
  Witness for C5: an empty snapshot, a snapshot of one row under a wrong header, and the
  same snapshot under the header of its rows.
\<close>

theorem construct_checks_header_witness:
  "typeRows (demo_sheet [''bogus''] []) (table_rows (table (demo_sheet [''bogus''] []))) = []
   \<and> construct stub_env (demo_sheet [''bogus''] []) [] = Inr \<lparr>heap = [], rows = [], index = []\<rparr>
   \<and> construct stub_env (demo_sheet [''bogus''] [ann_cells 1]) []
       = Inl (SchemaMismatch ''id,updated,title'' ''bogus'')
   \<and> (\<exists>st. construct stub_env (demo_sheet demo_header [ann_cells 1]) [] = Inr st
        \<and> heap st = [demo_row 0 ''a1'' 1] \<and> rows st = [0])"
proof -
  let ?w0 = "demo_sheet [''bogus''] []"
  let ?w1 = "demo_sheet [''bogus''] [ann_cells 1]"
  let ?w2 = "demo_sheet demo_header [ann_cells 1]"
  have t0: "typeRows ?w0 (table_rows (table ?w0)) = []" by code_simp
  have t1: "typeRows ?w1 (table_rows (table ?w1)) = demo_row 0 ''a1'' 1 # []" by code_simp
  have t2: "typeRows ?w2 (table_rows (table ?w2)) = demo_row 0 ''a1'' 1 # []" by code_simp
  have j1: "join '','' (table_header (table ?w1)) \<noteq> join '','' (header (demo_row 0 ''a1'' 1))"
    by code_simp
  have j2: "join '','' (table_header (table ?w2)) = join '','' (header (demo_row 0 ''a1'' 1))"
    by code_simp
  have v1: "join '','' (table_header (table ?w1)) = ''bogus''"
    "join '','' (header (demo_row 0 ''a1'' 1)) = ''id,updated,title''" by code_simp+
  from construct_checks_header[of ?w0 stub_env "[]"] t0
  have a: "construct stub_env ?w0 [] = Inr \<lparr>heap = [], rows = [], index = []\<rparr>" by blast
  from construct_checks_header[of ?w1 stub_env "[]"] t1 j1
  have b: "construct stub_env ?w1 []
      = Inl (SchemaMismatch (join '','' (header (demo_row 0 ''a1'' 1)))
               (join '','' (table_header (table ?w1))))" by blast
  from construct_checks_header[of ?w2 stub_env "[]"] t2 j2
  have c: "\<exists>st. construct stub_env ?w2 [] = Inr st
        \<and> heap st = [] @ demo_row 0 ''a1'' 1 # []
        \<and> rows st = [length ([]::obj list) ..< length ([]::obj list) + length (demo_row 0 ''a1'' 1 # [])]
        \<and> createIndex stub_env ?w2 st = st" by blast
  from a b c t0 v1 show ?thesis by auto
qed

text \<open>
  Counterexample to C5 as stated: the rows of the example sheet declare the header
  \<open>id, updated, title\<close>; the snapshot has the header \<open>bogus\<close> and no data rows;
  construction succeeds.
\<close>

theorem construct_empty_counterexample:
  "map header (demo_typeRows [ann_cells 1]) = [[''id'', ''updated'', ''title'']]
   \<and> table_header (table (demo_sheet [''bogus''] [])) = [''bogus'']
   \<and> table_rows (table (demo_sheet [''bogus''] [])) = []
   \<and> construct stub_env (demo_sheet [''bogus''] []) [] = Inr \<lparr>heap = [], rows = [], index = []\<rparr>"
  by code_simp

section \<open>WhollySheet: delete of a row that has no position\<close>

text \<open>
  Claim C6 does not hold of the code. \<open>checkOutdated\<close> returns for a row at position 0
  without asking the backend, and \<open>delete\<close>, unlike \<open>update\<close>, has no check of the
  position: it sends the row-delete request for position 0 and, when the backend answers,
  replaces the rows and returns \<open>true\<close>.
\<close>

theorem delete_unpositioned_reaches_backend:
  "lookup (heap (demo_state (demo_row 0 ''a1'' 1000)) ! 0) ''row'' = JNum 0
   \<and> delete stub_env (demo_sheet demo_header []) (demo_state (demo_row 0 ''a1'' 1000)) 0
       = (Inr True,
          \<lparr>heap = [demo_row 0 ''a1'' 1000, demo_row 0 ''a1'' 2000], rows = [1],
           index = [(''a1'', 1)]\<rparr>,
          [ReqRowDelete ''projects'' (JNum 0)])
   \<and> fst (delete stub_env (demo_sheet demo_header []) (demo_state (demo_row 0 ''a1'' 1000)) 0)
       \<noteq> Inl InvalidState"
  by code_simp

section \<open>WhollySheet: find\<close>

text \<open>
  Claim C8 does not hold of the code. With a number and no \<open>columnName\<close>, \<open>find\<close>
  scans the rows for the property \<open>row\<close>. \<open>refresh\<close> and \<open>create\<close> write that
  property; the constructor, like \<open>delete\<close>, types its rows and writes no position. A
  table constructed from a snapshot with Ann's row holds the row at position 2 of the
  tab, yet \<open>find(2)\<close> is absent; once the table is reloaded the same call returns the
  row. And the lookup by key column reads a plain object: for the text \<open>constructor\<close>,
  under which no row is stored, \<open>find\<close> returns the member that every object inherits
  instead of absent.
\<close>

theorem find_after_construct:
  "construct iso_env (rm_sheet 1000 [ann_wire 1000]) [] = Inr rm_constructed
   \<and> find_row iso_env (rm_sheet 1000 [ann_wire 1000]) rm_constructed (Given (JNum 2)) None = None
   \<and> refresh iso_env (rm_sheet 1000 [ann_wire 1000]) rm_constructed
       = (Inr [1],
          \<lparr>heap = [rm_row 1000, rm_numbered 1000], rows = [1], index = [(''a1'', 1)]\<rparr>,
          [ReqTabValues ''projects''])
   \<and> find_row iso_env (rm_sheet 1000 [ann_wire 1000])
         \<lparr>heap = [rm_row 1000, rm_numbered 1000], rows = [1], index = [(''a1'', 1)]\<rparr>
         (Given (JNum 2)) None
       = Some (Row 1)
   \<and> get (index rm_constructed) ''constructor'' = None
   \<and> find_row iso_env (rm_sheet 1000 [ann_wire 1000]) rm_constructed
         (Given (JStr ''constructor'')) (Some ''_id'')
       = Some (Member ''constructor'')"
  by code_simp

end
